theory Spec2Isabelle
  imports Complex_Main "HOL-Library.Sublist"
begin

section \<open>Python strings and exceptions\<close>

text \<open>
  A Python \<open>str\<close> is a sequence of Unicode code points, and \<open>len\<close>, \<open>upper\<close>,
  \<open>strip\<close> and the regular expressions of the service work on code points. The model
  therefore takes a string to be the list of its code points. \<open>ascii\<close> embeds an ASCII
  literal of the source.
\<close>

type_synonym pystr = "nat list"

definition ascii :: "string \<Rightarrow> pystr" where
  "ascii s = map of_char s"

text \<open>
  What Python does on ASCII is written out below. What it does on the other code points
  is read from the Unicode character database of the interpreter, which is no part of the
  repository: the model takes it as a parameter. \<open>ucd_isspace\<close> is \<open>str.isspace\<close> (also
  the class \<open>\s\<close> of \<open>re\<close> and the characters \<open>str.strip\<close> removes), \<open>ucd_upper\<close> the
  full upper-case mapping of one code point, \<open>ucd_lower\<close> the lower-casing of a whole
  string (it depends on the context of a capital sigma), \<open>ucd_printable\<close> is
  \<open>str.isprintable\<close>. Each is consulted on non-ASCII input only.
\<close>

record ucd =
  ucd_isspace :: "nat \<Rightarrow> bool"
  ucd_upper :: "nat \<Rightarrow> pystr"
  ucd_lower :: "pystr \<Rightarrow> pystr"
  ucd_printable :: "nat \<Rightarrow> bool"

definition py_isspace :: "ucd \<Rightarrow> nat \<Rightarrow> bool" where
  "py_isspace U c =
     (if c < 128 then (9 \<le> c \<and> c \<le> 13) \<or> (28 \<le> c \<and> c \<le> 32) else ucd_isspace U c)"

definition py_upper_cp :: "ucd \<Rightarrow> nat \<Rightarrow> pystr" where
  "py_upper_cp U c =
     (if c < 128 then (if 97 \<le> c \<and> c \<le> 122 then [c - 32] else [c]) else ucd_upper U c)"

definition py_upper :: "ucd \<Rightarrow> pystr \<Rightarrow> pystr" where
  "py_upper U s = concat (map (py_upper_cp U) s)"

definition py_lower :: "ucd \<Rightarrow> pystr \<Rightarrow> pystr" where
  "py_lower U s =
     (if list_all (\<lambda>c. c < 128) s
      then map (\<lambda>c. if 65 \<le> c \<and> c \<le> 90 then c + 32 else c) s
      else ucd_lower U s)"

definition py_strip :: "ucd \<Rightarrow> pystr \<Rightarrow> pystr" where
  "py_strip U s = rev (dropWhile (py_isspace U) (rev (dropWhile (py_isspace U) s)))"

text \<open>\<open>re.sub(r"\s+", "", s)\<close>: every maximal run of whitespace is deleted.\<close>

definition re_sub_ws_empty :: "ucd \<Rightarrow> pystr \<Rightarrow> pystr" where
  "re_sub_ws_empty U s = filter (\<lambda>c. \<not> py_isspace U c) s"

text \<open>
  The exceptions of the service. \<open>HTTPException\<close> carries its status code and detail;
  every other exception carries its class and the text \<open>str(exc)\<close> gives.
\<close>

datatype exn_kind =
  ValueError | TypeError | AttributeError | IndexError | KeyError | RecursionError
  | OverflowError | IntegrityError | APIError

datatype exn =
  HTTPException nat pystr
  | Raised exn_kind pystr

section \<open>Stock codes\<close>

text \<open>
  \<open>_STOCK_CODE_PATTERN = re.compile(r'^[A-Z0-9.\-]{1,20}$')\<close>, used with \<open>match\<close>.
  In Python \<open>$\<close> also matches just before a newline that ends the string, so the
  pattern accepts a body of one to twenty allowed characters, or such a body followed by
  one newline.
\<close>

definition stock_code_char :: "nat \<Rightarrow> bool" where
  "stock_code_char c = ((65 \<le> c \<and> c \<le> 90) \<or> (48 \<le> c \<and> c \<le> 57) \<or> c = 46 \<or> c = 45)"

definition stock_code_body :: "pystr \<Rightarrow> bool" where
  "stock_code_body s = (1 \<le> length s \<and> length s \<le> 20 \<and> list_all stock_code_char s)"

definition STOCK_CODE_PATTERN_match :: "pystr \<Rightarrow> bool" where
  "STOCK_CODE_PATTERN_match s =
     (stock_code_body s \<or> (s \<noteq> [] \<and> last s = 10 \<and> stock_code_body (butlast s)))"

definition normalize_stock_code :: "ucd \<Rightarrow> pystr option \<Rightarrow> exn + pystr" where
  "normalize_stock_code U raw_code =
     (case raw_code of
        None \<Rightarrow> Inl (Raised ValueError (ascii ''stock_code is required''))
      | Some raw \<Rightarrow>
          (let normalized = py_upper U (re_sub_ws_empty U raw) in
           if normalized = [] then Inl (Raised ValueError (ascii ''stock_code is empty''))
           else if length normalized > 20
             then Inl (Raised ValueError (ascii ''stock_code must be 20 chars or fewer''))
           else if \<not> STOCK_CODE_PATTERN_match normalized
             then Inl (Raised ValueError (ascii ''stock_code contains invalid characters''))
           else Inr normalized))"

text \<open>
  No upper-case mapping of Unicode produces a line feed; the theorems on the normalized
  code assume it of the table.
\<close>

definition upper_keeps_lines :: "ucd \<Rightarrow> bool" where
  "upper_keeps_lines U = (\<forall>c. 128 \<le> c \<longrightarrow> 10 \<notin> set (ucd_upper U c))"

text \<open>
  A table for running the model on ASCII inputs, where no table is consulted: it leaves
  every non-ASCII code point as it is and counts none as whitespace.
\<close>

definition plain_ucd :: ucd where
  "plain_ucd = \<lparr>ucd_isspace = (\<lambda>c. False), ucd_upper = (\<lambda>c. [c]),
                 ucd_lower = (\<lambda>s. s), ucd_printable = (\<lambda>c. True)\<rparr>"


section \<open>Python values\<close>

text \<open>
  The provider's payloads are dynamically typed. A value is \<open>None\<close>, a boolean, an
  integer, a float, a string, a list, a tuple, a dict with string keys, or an object
  with attributes. A float is seen only through its truth value and its text, so it
  carries both; so does an object, which carries its attributes and the texts \<open>str\<close> and
  \<open>repr\<close> give for it (an object is truthy). Lists and dicts are mutable and can
  contain themselves: a \<open>PRef\<close> names a list or dict held in the heap, so that a heap
  cell can refer to itself.
\<close>

datatype pyval =
    PNone
  | PBool bool
  | PInt int
  | PFloat bool pystr
  | PStr pystr
  | PList "pyval list"
  | PTuple "pyval list"
  | PDict "(pystr \<times> pyval) list"
  | PObj "(pystr \<times> pyval) list" pystr pystr
  | PRef nat

datatype cell = CList "pyval list" | CDict "(pystr \<times> pyval) list"

type_synonym heap = "nat \<Rightarrow> cell"

definition deref :: "heap \<Rightarrow> pyval \<Rightarrow> pyval" where
  "deref h v =
     (case v of
        PRef a \<Rightarrow> (case h a of CList items \<Rightarrow> PList items | CDict kvs \<Rightarrow> PDict kvs)
      | _ \<Rightarrow> v)"

definition empty_heap :: heap where
  "empty_heap = (\<lambda>a. CList [])"

text \<open>Truth value, as \<open>if value:\<close>, \<open>not value\<close> and \<open>a or b\<close> test it.\<close>

definition py_truthy :: "heap \<Rightarrow> pyval \<Rightarrow> bool" where
  "py_truthy h v =
     (case deref h v of
        PNone \<Rightarrow> False
      | PBool b \<Rightarrow> b
      | PInt i \<Rightarrow> i \<noteq> 0
      | PFloat nonzero _ \<Rightarrow> nonzero
      | PStr s \<Rightarrow> s \<noteq> []
      | PList items \<Rightarrow> items \<noteq> []
      | PTuple items \<Rightarrow> items \<noteq> []
      | PDict kvs \<Rightarrow> kvs \<noteq> []
      | _ \<Rightarrow> True)"

definition py_or :: "heap \<Rightarrow> pyval \<Rightarrow> pyval \<Rightarrow> pyval" where
  "py_or h a b = (if py_truthy h a then a else b)"

text \<open>
  The recursion of the interpreter is bounded: a call that nests deeper than the limit
  raises \<open>RecursionError\<close>. The recursive functions below take the number of nested calls
  still allowed and fail with that exception when none is left. The texts of the
  exceptions the interpreter raises are written out below.
\<close>

definition RecursionError_text :: pystr where
  "RecursionError_text = ascii ''maximum recursion depth exceeded''"

definition unhashable_text :: pystr where
  "unhashable_text = ascii ''unhashable type''"

definition int_digits_text :: pystr where
  "int_digits_text =
     ascii ''Exceeds the limit (4300 digits) for integer string conversion; '' @
     ascii ''use sys.set_int_max_str_digits() to increase the limit''"

text \<open>
  The name of the type of a value, as the interpreter prints it in a message. The model
  does not carry the class of an object and writes \<open>object\<close> for it.
\<close>

definition type_name :: "pyval \<Rightarrow> pystr" where
  "type_name v =
     (case v of
        PNone \<Rightarrow> ascii ''NoneType''
      | PBool b \<Rightarrow> ascii ''bool''
      | PInt i \<Rightarrow> ascii ''int''
      | PFloat nonzero text \<Rightarrow> ascii ''float''
      | PStr s \<Rightarrow> ascii ''str''
      | PList items \<Rightarrow> ascii ''list''
      | PTuple items \<Rightarrow> ascii ''tuple''
      | PDict kvs \<Rightarrow> ascii ''dict''
      | PObj attrs str_text repr_text \<Rightarrow> ascii ''object''
      | PRef a \<Rightarrow> ascii ''object'')"

definition no_len_text :: "pyval \<Rightarrow> pystr" where
  "no_len_text v = ascii ''object of type '' @ [39] @ type_name v @ [39] @ ascii '' has no len()''"

subsection \<open>The texts of values\<close>

fun str_nat :: "nat \<Rightarrow> pystr" where
  "str_nat n = (if n < 10 then [48 + n] else str_nat (n div 10) @ [48 + n mod 10])"

definition str_int :: "int \<Rightarrow> pystr" where
  "str_int i = (if i < 0 then 45 # str_nat (nat (- i)) else str_nat (nat i))"

text \<open>
  \<open>str\<close> and \<open>repr\<close> of an integer, and its formatting in an f-string: the interpreter
  refuses, with \<open>ValueError\<close>, to print an integer of more than
  \<open>sys.get_int_max_str_digits()\<close> digits, 4300 unless the limit has been changed.
\<close>

definition int_max_str_digits :: nat where
  "int_max_str_digits = 4300"

definition py_str_int :: "int \<Rightarrow> exn + pystr" where
  "py_str_int i =
     (if 10 ^ int_max_str_digits \<le> \<bar>i\<bar> then Inl (Raised ValueError int_digits_text)
      else Inr (str_int i))"

fun join :: "pystr \<Rightarrow> pystr list \<Rightarrow> pystr" where
  "join sep [] = []"
| "join sep [x] = x"
| "join sep (x # y # ys) = x @ sep @ join sep (y # ys)"

definition hex_digit :: "nat \<Rightarrow> nat" where
  "hex_digit d = (if d < 10 then 48 + d else 87 + d)"

definition hex_digits :: "nat \<Rightarrow> nat \<Rightarrow> pystr" where
  "hex_digits width c = map (\<lambda>i. hex_digit ((c div 16 ^ i) mod 16)) (rev [0..<width])"

definition repr_char :: "ucd \<Rightarrow> nat \<Rightarrow> nat \<Rightarrow> pystr" where
  "repr_char U quote c =
     (if c = quote \<or> c = 92 then [92, c]
      else if c = 9 then [92, 116]
      else if c = 10 then [92, 110]
      else if c = 13 then [92, 114]
      else if c < 32 \<or> c = 127 then [92, 120] @ hex_digits 2 c
      else if c < 127 then [c]
      else if ucd_printable U c then [c]
      else if c < 256 then [92, 120] @ hex_digits 2 c
      else if c < 65536 then [92, 117] @ hex_digits 4 c
      else [92, 85] @ hex_digits 8 c)"

definition repr_str :: "ucd \<Rightarrow> pystr \<Rightarrow> pystr" where
  "repr_str U s =
     (let quote = (if 39 \<in> set s \<and> 34 \<notin> set s then 34 else 39)
      in quote # concat (map (repr_char U quote) s) @ [quote])"

text \<open>The first exception of a sequence of evaluations wins.\<close>

fun collect :: "(exn + 'a) list \<Rightarrow> exn + 'a list" where
  "collect [] = Inr []"
| "collect (r # rs) =
     (case r of
        Inl e \<Rightarrow> Inl e
      | Inr x \<Rightarrow> (case collect rs of Inl e \<Rightarrow> Inl e | Inr xs \<Rightarrow> Inr (x # xs)))"

text \<open>
  \<open>repr\<close>. A container that is met again while it is being printed prints as an
  ellipsis; \<open>seen\<close> lists the heap cells being printed.
\<close>

fun py_repr :: "ucd \<Rightarrow> nat \<Rightarrow> heap \<Rightarrow> nat list \<Rightarrow> pyval \<Rightarrow> exn + pystr" where
  "py_repr U 0 h seen v = Inl (Raised RecursionError RecursionError_text)"
| "py_repr U (Suc n) h seen v =
     (case v of
        PNone \<Rightarrow> Inr (ascii ''None'')
      | PBool b \<Rightarrow> Inr (if b then ascii ''True'' else ascii ''False'')
      | PInt i \<Rightarrow> py_str_int i
      | PFloat nonzero text \<Rightarrow> Inr text
      | PStr s \<Rightarrow> Inr (repr_str U s)
      | PObj attrs str_text repr_text \<Rightarrow> Inr repr_text
      | PList items \<Rightarrow>
          (case collect (map (py_repr U n h seen) items) of
             Inl e \<Rightarrow> Inl e
           | Inr parts \<Rightarrow> Inr ([91] @ join (ascii '', '') parts @ [93]))
      | PTuple items \<Rightarrow>
          (case collect (map (py_repr U n h seen) items) of
             Inl e \<Rightarrow> Inl e
           | Inr parts \<Rightarrow>
               Inr ([40] @ join (ascii '', '') parts @ (if length parts = 1 then [44] else []) @ [41]))
      | PDict kvs \<Rightarrow>
          (case collect (map (\<lambda>kv. py_repr U n h seen (snd kv)) kvs) of
             Inl e \<Rightarrow> Inl e
           | Inr parts \<Rightarrow>
               Inr ([123] @ join (ascii '', '')
                      (map (\<lambda>(k, part). repr_str U k @ ascii '': '' @ part) (zip (map fst kvs) parts))
                    @ [125]))
      | PRef a \<Rightarrow>
          if a \<in> set seen
          then Inr (case h a of CList items \<Rightarrow> ascii ''[...]'' | CDict kvs \<Rightarrow> ascii ''{...}'')
          else py_repr U n h (a # seen) (deref h (PRef a)))"

definition py_str :: "ucd \<Rightarrow> nat \<Rightarrow> heap \<Rightarrow> pyval \<Rightarrow> exn + pystr" where
  "py_str U fuel h v =
     (case v of
        PStr s \<Rightarrow> Inr s
      | PObj attrs str_text repr_text \<Rightarrow> Inr str_text
      | _ \<Rightarrow> py_repr U fuel h [] v)"

text \<open>
  \<open>len\<close>, and membership in a set of strings, which hashes the value first: lists and
  dicts, and tuples holding them, are unhashable.
\<close>

definition py_len :: "heap \<Rightarrow> pyval \<Rightarrow> exn + nat" where
  "py_len h v =
     (case deref h v of
        PStr s \<Rightarrow> Inr (length s)
      | PList items \<Rightarrow> Inr (length items)
      | PTuple items \<Rightarrow> Inr (length items)
      | PDict kvs \<Rightarrow> Inr (length kvs)
      | other \<Rightarrow> Inl (Raised TypeError (no_len_text other)))"

primrec hashable :: "pyval \<Rightarrow> bool" where
  "hashable PNone = True"
| "hashable (PBool b) = True"
| "hashable (PInt i) = True"
| "hashable (PFloat nonzero text) = True"
| "hashable (PStr s) = True"
| "hashable (PList items) = False"
| "hashable (PTuple items) = list_all id (map hashable items)"
| "hashable (PDict kvs) = False"
| "hashable (PObj attrs str_text repr_text) = True"
| "hashable (PRef a) = False"

definition py_in_strs :: "pyval \<Rightarrow> pystr list \<Rightarrow> exn + bool" where
  "py_in_strs v strs =
     (if \<not> hashable v then Inl (Raised TypeError unhashable_text)
      else case v of PStr s \<Rightarrow> Inr (s \<in> set strs) | _ \<Rightarrow> Inr False)"

subsection \<open>The text normalizer\<close>

text \<open>
  \<open>_get_from_obj\<close>: \<open>dict.get\<close> on a dict, \<open>getattr\<close> on anything else. None of the keys
  the service asks for is an attribute of a built-in value, so there \<open>getattr\<close> gives the
  default.
\<close>

definition get_from_obj :: "heap \<Rightarrow> pyval \<Rightarrow> pystr \<Rightarrow> pyval \<Rightarrow> pyval" where
  "get_from_obj h obj key dflt =
     (case deref h obj of
        PNone \<Rightarrow> dflt
      | PDict kvs \<Rightarrow> (case map_of kvs key of None \<Rightarrow> dflt | Some v \<Rightarrow> v)
      | PObj attrs str_text repr_text \<Rightarrow> (case map_of attrs key of None \<Rightarrow> dflt | Some v \<Rightarrow> v)
      | _ \<Rightarrow> dflt)"

text \<open>
  The loop over the nested keys: the first key whose value resolves to a non-empty text
  ends it.
\<close>

fun first_resolved :: "(exn + pystr option) list \<Rightarrow> exn + pystr option" where
  "first_resolved [] = Inr None"
| "first_resolved (r # rs) =
     (case r of
        Inl e \<Rightarrow> Inl e
      | Inr None \<Rightarrow> first_resolved rs
      | Inr (Some s) \<Rightarrow> if s \<noteq> [] then Inr (Some s) else first_resolved rs)"

definition nested_keys :: "pystr list" where
  "nested_keys = [ascii ''value'', ascii ''text'', ascii ''content'']"

fun coerce_text_value :: "ucd \<Rightarrow> nat \<Rightarrow> heap \<Rightarrow> pyval \<Rightarrow> exn + pystr option" where
  "coerce_text_value U 0 h val = Inl (Raised RecursionError RecursionError_text)"
| "coerce_text_value U (Suc n) h val =
     (case deref h val of
        PNone \<Rightarrow> Inr None
      | PStr s \<Rightarrow> Inr (Some s)
      | PBool b \<Rightarrow> Inr (Some (if b then ascii ''True'' else ascii ''False''))
      | PInt i \<Rightarrow> (case py_str_int i of Inl e \<Rightarrow> Inl e | Inr s \<Rightarrow> Inr (Some s))
      | PFloat nonzero text \<Rightarrow> Inr (Some text)
      | PList items \<Rightarrow>
          (case collect (map (coerce_text_value U n h) items) of
             Inl e \<Rightarrow> Inl e
           | Inr results \<Rightarrow>
               (let parts = concat (map (\<lambda>r. case r of None \<Rightarrow> []
                                              | Some s \<Rightarrow> if s \<noteq> [] then [s] else []) results)
                in Inr (if parts \<noteq> [] then Some (join [10] parts) else None)))
      | PTuple items \<Rightarrow>
          (case collect (map (coerce_text_value U n h) items) of
             Inl e \<Rightarrow> Inl e
           | Inr results \<Rightarrow>
               (let parts = concat (map (\<lambda>r. case r of None \<Rightarrow> []
                                              | Some s \<Rightarrow> if s \<noteq> [] then [s] else []) results)
                in Inr (if parts \<noteq> [] then Some (join [10] parts) else None)))
      | _ \<Rightarrow>
          (case first_resolved
                  (map (\<lambda>key. let nested = get_from_obj h val key PNone
                              in if deref h nested = PNone then Inr None
                                 else coerce_text_value U n h nested) nested_keys) of
             Inl e \<Rightarrow> Inl e
           | Inr (Some resolved) \<Rightarrow> Inr (Some resolved)
           | Inr None \<Rightarrow>
               (case py_str U n h val of
                  Inl e \<Rightarrow> Inl e
                | Inr text \<Rightarrow>
                    (let text_repr = py_strip U text
                     in Inr (if text_repr \<noteq> [] then Some text_repr else None)))))"

text \<open>
  The nesting depth of a value, the values that hold no reference into the heap (those
  are the finite trees), and the values all of whose integers can be printed.
\<close>

primrec depth :: "pyval \<Rightarrow> nat" where
  "depth PNone = 0"
| "depth (PBool b) = 0"
| "depth (PInt i) = 0"
| "depth (PFloat nonzero text) = 0"
| "depth (PStr s) = 0"
| "depth (PList items) = Suc (fold max (map depth items) 0)"
| "depth (PTuple items) = Suc (fold max (map depth items) 0)"
| "depth (PDict kvs) = Suc (fold max (map snd (map (map_prod id depth) kvs)) 0)"
| "depth (PObj attrs str_text repr_text) = Suc (fold max (map snd (map (map_prod id depth) attrs)) 0)"
| "depth (PRef a) = 0"

primrec ref_free :: "pyval \<Rightarrow> bool" where
  "ref_free PNone = True"
| "ref_free (PBool b) = True"
| "ref_free (PInt i) = True"
| "ref_free (PFloat nonzero text) = True"
| "ref_free (PStr s) = True"
| "ref_free (PList items) = list_all id (map ref_free items)"
| "ref_free (PTuple items) = list_all id (map ref_free items)"
| "ref_free (PDict kvs) = list_all id (map snd (map (map_prod id ref_free) kvs))"
| "ref_free (PObj attrs str_text repr_text) = list_all id (map snd (map (map_prod id ref_free) attrs))"
| "ref_free (PRef a) = False"

primrec small_ints :: "pyval \<Rightarrow> bool" where
  "small_ints PNone = True"
| "small_ints (PBool b) = True"
| "small_ints (PInt i) = (\<bar>i\<bar> < 10 ^ int_max_str_digits)"
| "small_ints (PFloat nonzero text) = True"
| "small_ints (PStr s) = True"
| "small_ints (PList items) = list_all id (map small_ints items)"
| "small_ints (PTuple items) = list_all id (map small_ints items)"
| "small_ints (PDict kvs) = list_all id (map snd (map (map_prod id small_ints) kvs))"
| "small_ints (PObj attrs str_text repr_text) =
     list_all id (map snd (map (map_prod id small_ints) attrs))"
| "small_ints (PRef a) = True"


section \<open>The provider dispatcher\<close>

text \<open>
  The module constants read from the environment at import time are the fields of one
  configuration. The sampling temperature and the similarity threshold are floats that
  the service only passes on; the model takes them as rationals.
\<close>

record config =
  OPENAI_MODEL_DEFAULT :: pystr
  OPENAI_TEMPERATURE_DEFAULT :: rat
  OPENAI_MAX_TOKENS_DEFAULT :: int
  OPENAI_RESPONSES_MIN_OUTPUT_TOKENS :: int
  OPENAI_RESPONSES_MAX_OUTPUT_TOKENS :: int
  ENABLE_RAG_NEWS :: bool
  RAG_NEWS_TOP_K :: int
  RAG_NEWS_SUMMARY_LIMIT :: int
  RAG_NEWS_SIMILARITY_THRESHOLD :: rat

definition default_config :: config where
  "default_config =
     \<lparr>OPENAI_MODEL_DEFAULT = ascii ''gpt-5-mini'', OPENAI_TEMPERATURE_DEFAULT = 1 / 5,
      OPENAI_MAX_TOKENS_DEFAULT = 512, OPENAI_RESPONSES_MIN_OUTPUT_TOKENS = 1024,
      OPENAI_RESPONSES_MAX_OUTPUT_TOKENS = 4096, ENABLE_RAG_NEWS = True,
      RAG_NEWS_TOP_K = 12, RAG_NEWS_SUMMARY_LIMIT = 4,
      RAG_NEWS_SIMILARITY_THRESHOLD = 7 / 20\<rparr>"

definition RESPONSES_ONLY_PREFIXES :: "pystr list" where
  "RESPONSES_ONLY_PREFIXES =
     [ascii ''gpt-4.1'', ascii ''gpt-5-mini'', ascii ''o4'', ascii ''o5'', ascii ''o1'']"

definition ASSISTANT_FALLBACK_MESSAGE :: pystr where
  "ASSISTANT_FALLBACK_MESSAGE =
     [51396, 49569, 54633, 45768, 45796, 46, 32, 51648, 44552, 51008, 32, 45813, 48320,
      51012, 32, 49373, 49457, 54624, 32, 49688, 32, 50630, 50612, 50836, 46, 32, 51104,
      49884, 32, 54980, 32, 45796, 49884, 32, 49884, 46020, 54644, 51452, 49464, 50836, 46]"

definition EMPTY_RESPONSE_DETAIL :: pystr where
  "EMPTY_RESPONSE_DETAIL = ascii ''OpenAI returned empty response''"

text \<open>
  A message of the conversation is a dict; a request is one call of the client, with
  the arguments the service passes. A response is the object the client returns and,
  when the object has a \<open>model_dump\<close> method, what that method returns or raises. The
  client answers a request knowing the requests made before it in the same call, so
  that a retry may be answered differently. The SDK may be missing, or fail to build a
  client.
\<close>

type_synonym chat_message = "(pystr \<times> pyval) list"

datatype request =
    ResponsesCreate pystr "pyval list" int
  | ChatCompletionsCreate pystr "chat_message list" rat int

record response =
  resp_obj :: pyval
  resp_model_dump :: "(exn + pyval) option"

type_synonym client = "request list \<Rightarrow> request \<Rightarrow> exn + response"

datatype sdk = NotInstalled | InitFails pystr | Client client

definition should_use_responses_api :: "ucd \<Rightarrow> pystr \<Rightarrow> bool" where
  "should_use_responses_api U model =
     (let normalized = py_lower U model
      in list_ex (\<lambda>p. prefix p normalized) RESPONSES_ONLY_PREFIXES)"

definition format_messages_for_responses :: "chat_message list \<Rightarrow> pyval list" where
  "format_messages_for_responses msgs =
     map (\<lambda>msg.
            let role = (case map_of msg (ascii ''role'') of
                          None \<Rightarrow> PStr (ascii ''user'') | Some r \<Rightarrow> r);
                content_text = (case map_of msg (ascii ''content'') of
                                  None \<Rightarrow> PStr [] | Some c \<Rightarrow> c);
                content_type = (if role = PStr (ascii ''assistant'')
                                then ascii ''output_text'' else ascii ''input_text'')
            in PDict [(ascii ''role'', role),
                      (ascii ''content'',
                       PList [PDict [(ascii ''type'', PStr content_type),
                                     (ascii ''text'', content_text)]])]) msgs"

text \<open>
  \<open>x = v or []\<close> followed by \<open>if x and not isinstance(x, list): x = [x]\<close>: the items the
  loop then runs over.
\<close>

definition as_list :: "heap \<Rightarrow> pyval \<Rightarrow> pyval list" where
  "as_list h v =
     (let x = py_or h v (PList [])
      in case deref h x of
           PList items \<Rightarrow> items
         | _ \<Rightarrow> if py_truthy h x then [x] else [])"

fun scan_contents :: "ucd \<Rightarrow> nat \<Rightarrow> heap \<Rightarrow> pyval list \<Rightarrow> exn + pystr option" where
  "scan_contents U fuel h [] = Inr None"
| "scan_contents U fuel h (content # rest) =
     (case py_in_strs (get_from_obj h content (ascii ''type'') PNone)
             [ascii ''text'', ascii ''output_text''] of
        Inl e \<Rightarrow> Inl e
      | Inr False \<Rightarrow> scan_contents U fuel h rest
      | Inr True \<Rightarrow>
          (case coerce_text_value U fuel h (get_from_obj h content (ascii ''text'') PNone) of
             Inl e \<Rightarrow> Inl e
           | Inr text_value \<Rightarrow>
               if text_value \<noteq> None \<and> text_value \<noteq> Some [] then Inr text_value
               else
                 (case coerce_text_value U fuel h
                         (get_from_obj h content (ascii ''content'') PNone) of
                    Inl e \<Rightarrow> Inl e
                  | Inr text_value2 \<Rightarrow>
                      if text_value2 \<noteq> None \<and> text_value2 \<noteq> Some [] then Inr text_value2
                      else scan_contents U fuel h rest)))"

fun scan_outputs :: "ucd \<Rightarrow> nat \<Rightarrow> heap \<Rightarrow> pyval list \<Rightarrow> exn + pystr option" where
  "scan_outputs U fuel h [] = Inr None"
| "scan_outputs U fuel h (output # rest) =
     (case py_in_strs (get_from_obj h output (ascii ''type'') PNone)
             [ascii ''message'', ascii ''output_text''] of
        Inl e \<Rightarrow> Inl e
      | Inr False \<Rightarrow> scan_outputs U fuel h rest
      | Inr True \<Rightarrow>
          (case scan_contents U fuel h
                  (as_list h (get_from_obj h output (ascii ''content'') PNone)) of
             Inl e \<Rightarrow> Inl e
           | Inr (Some text_value) \<Rightarrow> Inr (Some text_value)
           | Inr None \<Rightarrow> scan_outputs U fuel h rest))"

definition extract_text_from_responses :: "ucd \<Rightarrow> nat \<Rightarrow> heap \<Rightarrow> response \<Rightarrow> exn + pystr" where
  "extract_text_from_responses U fuel h resp =
     (let resp_data = (case resp_model_dump resp of
                         Some (Inr dumped) \<Rightarrow> dumped
                       | _ \<Rightarrow> resp_obj resp);
          outputs = as_list h (py_or h (get_from_obj h resp_data (ascii ''output'') PNone)
                                       (get_from_obj h resp_data (ascii ''outputs'') PNone))
      in case scan_outputs U fuel h outputs of
           Inl e \<Rightarrow> Inl e
         | Inr (Some text_value) \<Rightarrow> Inr text_value
         | Inr None \<Rightarrow>
             (case coerce_text_value U fuel h
                     (py_or h (get_from_obj h resp_data (ascii ''output_text'') PNone)
                              (get_from_obj h (resp_obj resp) (ascii ''output_text'') PNone)) of
                Inl e \<Rightarrow> Inl e
              | Inr fallback \<Rightarrow>
                  (case fallback of
                     Some text_value \<Rightarrow>
                       if text_value \<noteq> [] then Inr text_value
                       else Inl (HTTPException 502 EMPTY_RESPONSE_DETAIL)
                   | None \<Rightarrow> Inl (HTTPException 502 EMPTY_RESPONSE_DETAIL))))"

definition extract_text_from_chat_choice ::
  "ucd \<Rightarrow> nat \<Rightarrow> heap \<Rightarrow> pyval \<Rightarrow> exn + pystr option" where
  "extract_text_from_chat_choice U fuel h choice =
     (if deref h choice = PNone then Inr None
      else
        (let message = py_or h (get_from_obj h choice (ascii ''message'') PNone) choice;
             content = get_from_obj h message (ascii ''content'') PNone
         in case coerce_text_value U fuel h content of
              Inl e \<Rightarrow> Inl e
            | Inr text_value \<Rightarrow>
                if text_value \<noteq> None \<and> text_value \<noteq> Some [] then Inr text_value
                else
                  (let delta = py_or h (get_from_obj h message (ascii ''delta'') PNone)
                                       (get_from_obj h choice (ascii ''delta'') PNone)
                   in case coerce_text_value U fuel h delta of
                        Inl e \<Rightarrow> Inl e
                      | Inr text_value2 \<Rightarrow>
                          if text_value2 \<noteq> None \<and> text_value2 \<noteq> Some [] then Inr text_value2
                          else Inr None)))"

definition is_empty_openai_http_error :: "exn \<Rightarrow> bool" where
  "is_empty_openai_http_error exc =
     (case exc of
        HTTPException status_code detail \<Rightarrow>
          status_code = 502 \<and> sublist EMPTY_RESPONSE_DETAIL detail
      | _ \<Rightarrow> False)"

definition fallback_assistant_response :: "pystr \<Rightarrow> pystr" where
  "fallback_assistant_response reason = ASSISTANT_FALLBACK_MESSAGE"

definition get_incomplete_reason :: "ucd \<Rightarrow> nat \<Rightarrow> heap \<Rightarrow> pyval \<Rightarrow> exn + pystr option" where
  "get_incomplete_reason U fuel h resp =
     (let incomplete = get_from_obj h resp (ascii ''incomplete_details'') PNone
      in if \<not> py_truthy h incomplete then Inr None
         else
           (let reason = get_from_obj h incomplete (ascii ''reason'') PNone
            in if py_truthy h reason
               then (case py_str U fuel h reason of Inl e \<Rightarrow> Inl e | Inr s \<Rightarrow> Inr (Some s))
               else Inr None))"

definition get_openai_client :: "sdk \<Rightarrow> exn + client" where
  "get_openai_client s =
     (case s of
        NotInstalled \<Rightarrow>
          Inl (HTTPException 500 (ascii ''OpenAI SDK is not installed on the server.''))
      | InitFails text \<Rightarrow>
          Inl (HTTPException 500 (ascii ''Failed to initialize OpenAI client: '' @ text))
      | Client c \<Rightarrow> Inr c)"

text \<open>
  Attribute access and indexing as the legacy branch writes them: \<open>resp.choices\<close> and
  \<open>resp.choices[0]\<close>.
\<close>

definition py_getattr :: "heap \<Rightarrow> pyval \<Rightarrow> pystr \<Rightarrow> exn + pyval" where
  "py_getattr h obj name =
     (case obj of
        PObj attrs str_text repr_text \<Rightarrow>
          (case map_of attrs name of
             None \<Rightarrow> Inl (Raised AttributeError (ascii ''object has no attribute''))
           | Some v \<Rightarrow> Inr v)
      | _ \<Rightarrow> Inl (Raised AttributeError (ascii ''object has no attribute'')))"

definition py_index0 :: "heap \<Rightarrow> pyval \<Rightarrow> exn + pyval" where
  "py_index0 h v =
     (case deref h v of
        PList items \<Rightarrow>
          (case items of [] \<Rightarrow> Inl (Raised IndexError (ascii ''list index out of range''))
           | x # _ \<Rightarrow> Inr x)
      | PTuple items \<Rightarrow>
          (case items of [] \<Rightarrow> Inl (Raised IndexError (ascii ''tuple index out of range''))
           | x # _ \<Rightarrow> Inr x)
      | PStr s \<Rightarrow>
          (case s of [] \<Rightarrow> Inl (Raised IndexError (ascii ''string index out of range''))
           | c # _ \<Rightarrow> Inr (PStr [c]))
      | PDict kvs \<Rightarrow> Inl (Raised KeyError (ascii ''0''))
      | _ \<Rightarrow> Inl (Raised TypeError (ascii ''object is not subscriptable'')))"

text \<open>
  The debug lines evaluate expressions before they print, and an expression that raises
  ends the call like any other. After \<open>responses.create\<close> the line takes the \<open>len\<close> of
  the output and formats the status and the cap; before the retry the line formats the
  new cap; after the retry it formats the status and then takes the \<open>len\<close>. Writing
  the finished line to the standard output is taken to succeed.
\<close>

definition responses_output_count :: "heap \<Rightarrow> pyval \<Rightarrow> exn + nat" where
  "responses_output_count h resp =
     py_len h (py_or h (get_from_obj h resp (ascii ''output'') PNone)
                 (py_or h (get_from_obj h resp (ascii ''outputs'') PNone) (PList [])))"

definition log_responses_done :: "ucd \<Rightarrow> nat \<Rightarrow> heap \<Rightarrow> pyval \<Rightarrow> int \<Rightarrow> exn + unit" where
  "log_responses_done U fuel h resp responses_max_tokens =
     (case responses_output_count h resp of
        Inl e \<Rightarrow> Inl e
      | Inr n \<Rightarrow>
          (case py_str U fuel h (get_from_obj h resp (ascii ''status'') PNone) of
             Inl e \<Rightarrow> Inl e
           | Inr s \<Rightarrow>
               (case py_str_int responses_max_tokens of
                  Inl e \<Rightarrow> Inl e
                | Inr t \<Rightarrow> Inr ())))"

definition log_responses_retrying :: "int \<Rightarrow> exn + unit" where
  "log_responses_retrying new_cap =
     (case py_str_int new_cap of Inl e \<Rightarrow> Inl e | Inr t \<Rightarrow> Inr ())"

definition log_responses_retry_done :: "ucd \<Rightarrow> nat \<Rightarrow> heap \<Rightarrow> pyval \<Rightarrow> exn + unit" where
  "log_responses_retry_done U fuel h resp =
     (case py_str U fuel h (get_from_obj h resp (ascii ''status'') PNone) of
        Inl e \<Rightarrow> Inl e
      | Inr s \<Rightarrow>
          (case responses_output_count h resp of
             Inl e \<Rightarrow> Inl e
           | Inr n \<Rightarrow> Inr ()))"

definition log_chat_completions_done :: "ucd \<Rightarrow> nat \<Rightarrow> heap \<Rightarrow> pyval \<Rightarrow> exn + unit" where
  "log_chat_completions_done U fuel h choices =
     (case py_len h (py_or h choices (PList [])) of
        Inl e \<Rightarrow> Inl e
      | Inr n \<Rightarrow>
          if py_truthy h choices
          then (case py_index0 h choices of
                  Inl e \<Rightarrow> Inl e
                | Inr first_choice \<Rightarrow>
                    (case py_str U fuel h
                            (get_from_obj h first_choice (ascii ''finish_reason'') PNone) of
                       Inl e \<Rightarrow> Inl e
                     | Inr s \<Rightarrow> Inr ()))
          else Inr ())"

text \<open>
  \<open>int(responses_max_tokens * 1.5)\<close>. The integer is first converted to a float, the
  nearest number with 53 significant bits, a tie going to the even neighbour; the product
  with 1.5 is rounded in the same way; \<open>int\<close> then truncates towards zero. A float has
  no finite value from \<open>2 ^ 1024\<close> on: there the conversion raises \<open>OverflowError\<close>, and
  so does \<open>int\<close> of a product that has become infinite. \<open>round_half_even m s\<close> is
  \<open>m / 2 ^ s\<close> rounded to an integer, \<open>excess_bits m\<close> the number of bits \<open>m\<close> has
  beyond 53.
\<close>

definition round_half_even :: "int \<Rightarrow> nat \<Rightarrow> int" where
  "round_half_even m s =
     (let q = m div 2 ^ s; r = m mod 2 ^ s
      in if 2 ^ s < 2 * r \<or> (2 * r = 2 ^ s \<and> odd q) then q + 1 else q)"

function excess_bits :: "int \<Rightarrow> nat" where
  "excess_bits m = (if m < 2 ^ 53 then 0 else Suc (excess_bits (m div 2)))"
  by pat_completeness auto

termination
  by (relation "measure nat") auto

declare excess_bits.simps [simp del]

definition to_53_bits :: "int \<Rightarrow> int" where
  "to_53_bits m = (let s = excess_bits m in round_half_even m s * 2 ^ s)"

definition int_times_1_5 :: "int \<Rightarrow> exn + int" where
  "int_times_1_5 x =
     (let f = to_53_bits \<bar>x\<bar>
      in if 2 ^ 1024 \<le> f
         then Inl (Raised OverflowError (ascii ''int too large to convert to float''))
         else
           (let p = to_53_bits (3 * f) div 2
            in if 2 ^ 1024 \<le> p
               then Inl (Raised OverflowError (ascii ''cannot convert float infinity to integer''))
               else Inr (sgn x * p)))"

definition retry_tokens :: "config \<Rightarrow> int \<Rightarrow> exn + int" where
  "retry_tokens cfg responses_max_tokens =
     (case int_times_1_5 responses_max_tokens of
        Inl e \<Rightarrow> Inl e
      | Inr product \<Rightarrow>
          Inr (min (OPENAI_RESPONSES_MAX_OUTPUT_TOKENS cfg)
                   (max product (responses_max_tokens + 256))))"

text \<open>
  The inner \<open>try\<close> of the structured branch: the text of the response, with the empty
  response turned into the fallback message.
\<close>

definition responses_text :: "ucd \<Rightarrow> nat \<Rightarrow> heap \<Rightarrow> response \<Rightarrow> exn + pystr" where
  "responses_text U fuel h resp =
     (case extract_text_from_responses U fuel h resp of
        Inl exc \<Rightarrow>
          (case exc of
             HTTPException status_code detail \<Rightarrow>
               if is_empty_openai_http_error exc
               then Inr (fallback_assistant_response (ascii ''responses API''))
               else Inl exc
           | _ \<Rightarrow> Inl exc)
      | Inr text \<Rightarrow>
          if text \<noteq> [] then Inr text
          else Inr (fallback_assistant_response (ascii ''responses API empty string'')))"

definition responses_branch ::
  "ucd \<Rightarrow> config \<Rightarrow> nat \<Rightarrow> heap \<Rightarrow> client \<Rightarrow> chat_message list \<Rightarrow> pystr \<Rightarrow> int
     \<Rightarrow> (exn + pystr) \<times> request list" where
  "responses_branch U cfg fuel h create msgs model max_tokens =
     (let responses_input = format_messages_for_responses msgs;
          responses_max_tokens =
            min (max max_tokens (OPENAI_RESPONSES_MIN_OUTPUT_TOKENS cfg))
                (OPENAI_RESPONSES_MAX_OUTPUT_TOKENS cfg);
          first_request = ResponsesCreate model responses_input responses_max_tokens
      in case create [] first_request of
           Inl e \<Rightarrow> (Inl e, [first_request])
         | Inr resp \<Rightarrow>
             (case log_responses_done U fuel h (resp_obj resp) responses_max_tokens of
                Inl e \<Rightarrow> (Inl e, [first_request])
              | Inr _ \<Rightarrow>
                  (case get_incomplete_reason U fuel h (resp_obj resp) of
                     Inl e \<Rightarrow> (Inl e, [first_request])
                   | Inr incomplete_reason \<Rightarrow>
                       if incomplete_reason = Some (ascii ''max_output_tokens'')
                          \<and> responses_max_tokens < OPENAI_RESPONSES_MAX_OUTPUT_TOKENS cfg
                       then
                         (case retry_tokens cfg responses_max_tokens of
                            Inl e \<Rightarrow> (Inl e, [first_request])
                          | Inr new_cap \<Rightarrow>
                              (case log_responses_retrying new_cap of
                                 Inl e \<Rightarrow> (Inl e, [first_request])
                               | Inr _ \<Rightarrow>
                                   (let retry_request =
                                          ResponsesCreate model responses_input new_cap
                                    in case create [first_request] retry_request of
                                         Inl e \<Rightarrow> (Inl e, [first_request, retry_request])
                                       | Inr resp2 \<Rightarrow>
                                           (case log_responses_retry_done U fuel h
                                                   (resp_obj resp2) of
                                              Inl e \<Rightarrow> (Inl e, [first_request, retry_request])
                                            | Inr _ \<Rightarrow>
                                                (responses_text U fuel h resp2,
                                                 [first_request, retry_request])))))
                       else (responses_text U fuel h resp, [first_request]))))"

definition chat_completions_branch ::
  "ucd \<Rightarrow> nat \<Rightarrow> heap \<Rightarrow> client \<Rightarrow> chat_message list \<Rightarrow> pystr \<Rightarrow> rat \<Rightarrow> int
     \<Rightarrow> (exn + pystr) \<times> request list" where
  "chat_completions_branch U fuel h create msgs model temperature max_tokens =
     (let the_request = ChatCompletionsCreate model msgs temperature max_tokens
      in case create [] the_request of
           Inl e \<Rightarrow> (Inl e, [the_request])
         | Inr resp \<Rightarrow>
             (case py_getattr h (resp_obj resp) (ascii ''choices'') of
                Inl e \<Rightarrow> (Inl e, [the_request])
              | Inr choices \<Rightarrow>
                  (case log_chat_completions_done U fuel h choices of
                     Inl e \<Rightarrow> (Inl e, [the_request])
                   | Inr _ \<Rightarrow>
                       (case (if py_truthy h choices then py_index0 h choices else Inr PNone) of
                          Inl e \<Rightarrow> (Inl e, [the_request])
                        | Inr choice \<Rightarrow>
                            (case extract_text_from_chat_choice U fuel h choice of
                               Inl e \<Rightarrow> (Inl e, [the_request])
                             | Inr content \<Rightarrow>
                                 (case content of
                                    None \<Rightarrow>
                                      (Inr (fallback_assistant_response (ascii ''chat completions'')),
                                       [the_request])
                                  | Some text \<Rightarrow>
                                      if text = []
                                      then (Inr (fallback_assistant_response
                                                   (ascii ''chat completions'')), [the_request])
                                      else (Inr text, [the_request])))))))"

text \<open>
  The handlers of the outer \<open>try\<close>: an \<open>HTTPException\<close> that reports the empty response
  becomes the fallback message, any other \<open>HTTPException\<close> is raised again, and every
  other exception becomes a 502.
\<close>

definition handle_openai_errors :: "exn + pystr \<Rightarrow> exn + pystr" where
  "handle_openai_errors r =
     (case r of
        Inr text \<Rightarrow> Inr text
      | Inl exc \<Rightarrow>
          (case exc of
             HTTPException status_code detail \<Rightarrow>
               if is_empty_openai_http_error exc
               then Inr (fallback_assistant_response (ascii ''chat completions HTTPException''))
               else Inl exc
           | Raised kind text \<Rightarrow>
               Inl (HTTPException 502 (ascii ''OpenAI chat completion failed: '' @ text))))"

text \<open>
  \<open>_call_openai_chat\<close>: the text of the reply or the exception raised, and the requests
  sent to the provider in their order.
\<close>

definition call_openai_chat ::
  "ucd \<Rightarrow> config \<Rightarrow> nat \<Rightarrow> heap \<Rightarrow> sdk \<Rightarrow> chat_message list \<Rightarrow> pystr \<Rightarrow> rat \<Rightarrow> int
     \<Rightarrow> (exn + pystr) \<times> request list" where
  "call_openai_chat U cfg fuel h s msgs model temperature max_tokens =
     (case get_openai_client s of
        Inl e \<Rightarrow> (Inl e, [])
      | Inr create \<Rightarrow>
          (let (r, sent) =
             (if should_use_responses_api U model
              then responses_branch U cfg fuel h create msgs model max_tokens
              else chat_completions_branch U fuel h create msgs model temperature max_tokens)
           in (handle_openai_errors r, sent)))"


section \<open>Rooms and messages\<close>

text \<open>
  Modelled from the spec: \<open>app/models/models.py\<close> and \<open>app/schemas/chats.py\<close> are not
  among the sources, so the rows \<open>Chat\<close> and \<open>Message\<close>, the enumerations \<open>RoleEnum\<close> and
  \<open>TrashEnum\<close> and the request bodies follow section 3 of the specification and the
  fields the service reads and writes. A room with trash state \<open>out\<close> is active, one with
  trash state \<open>in\<close> is in the trash can.
\<close>

datatype TrashEnum = TrashEnum_in | TrashEnum_out

datatype RoleEnum = RoleEnum_user | RoleEnum_assistant


definition RoleEnum_value :: "RoleEnum \<Rightarrow> pystr" where
  "RoleEnum_value r =
     (case r of RoleEnum_user \<Rightarrow> ascii ''user'' | RoleEnum_assistant \<Rightarrow> ascii ''assistant'')"

record Chat =
  chat_id :: nat
  chat_user_id :: nat
  chat_title :: "pystr option"
  chat_stock_code :: "pystr option"
  chat_trash_can :: TrashEnum
  chat_lastchat_at :: "nat option"

record Message =
  messages_id :: nat
  message_chat_id :: nat
  message_user_id :: nat
  message_role :: RoleEnum
  message_content :: pystr
  message_created_at :: nat

record ChatCreate =
  create_title :: "pystr option"
  create_stock_code :: "pystr option"


text \<open>
  The database is the list of its rows, in the order they were stored. Timestamps are
  natural numbers; a function that writes \<open>func.now()\<close> takes the time the database
  reads as its argument \<open>now\<close>.
\<close>

record database =
  chats :: "Chat list"
  messages :: "Message list"

text \<open>
  Modelled from the spec: what a new row gets for a column the service does not set is
  declared in the missing \<open>models.py\<close>. The trash state and the last-activity time of a
  new room are parameters; a new message is stamped with the time of its insertion; a new
  row gets an identifier above all present ones, as an auto-increment key does.
\<close>

record schema =
  default_trash_can :: TrashEnum
  default_lastchat_at :: "nat \<Rightarrow> nat option"

definition fresh_chat_id :: "Chat list \<Rightarrow> nat" where
  "fresh_chat_id rows = Suc (fold max (map chat_id rows) 0)"

definition fresh_messages_id :: "Message list \<Rightarrow> nat" where
  "fresh_messages_id rows = Suc (fold max (map messages_id rows) 0)"

text \<open>\<open>query.first()\<close>: the first row of the result, or \<open>None\<close>.\<close>

definition query_first :: "'a list \<Rightarrow> 'a option" where
  "query_first rows = (case rows of [] \<Rightarrow> None | r # _ \<Rightarrow> Some r)"

text \<open>
  Writing back a loaded row: the \<open>UPDATE\<close> goes by the primary key.
\<close>

definition put_chat :: "Chat list \<Rightarrow> Chat \<Rightarrow> Chat list" where
  "put_chat rows r = map (\<lambda>c. if chat_id c = chat_id r then r else c) rows"

text \<open>
  Modelled from the spec: the uniqueness constraint of the missing schema, ``enforced at
  the (user, stock-code, active-state) level'': two active rooms of one user may not
  carry the same stock code. A commit that would break it raises \<open>IntegrityError\<close>.
\<close>

definition unique_violation :: "Chat list \<Rightarrow> Chat \<Rightarrow> bool" where
  "unique_violation rows r =
     (chat_trash_can r = TrashEnum_out \<and> chat_stock_code r \<noteq> None \<and>
      list_ex (\<lambda>c. chat_id c \<noteq> chat_id r \<and> chat_user_id c = chat_user_id r \<and>
                   chat_stock_code c = chat_stock_code r \<and>
                   chat_trash_can c = TrashEnum_out) rows)"

definition IntegrityError_text :: pystr where
  "IntegrityError_text = ascii ''UNIQUE constraint failed''"

subsection \<open>Ownership and history\<close>

definition ensure_room_ownership :: "database \<Rightarrow> nat \<Rightarrow> nat \<Rightarrow> exn + Chat" where
  "ensure_room_ownership db room_id user_id =
     (case query_first (filter (\<lambda>c. chat_id c = room_id \<and> chat_user_id c = user_id) (chats db)) of
        None \<Rightarrow> Inl (HTTPException 404 (ascii ''Chat room not found or permission denied''))
      | Some chat \<Rightarrow> Inr chat)"

text \<open>
  \<open>_load_chat_history\<close>: \<open>filter(chat_id == room_id).order_by(created_at.asc()).limit(limit)\<close>.
  The sort is stable, so rows stamped with the same time stay in stored order.
\<close>

definition load_chat_history :: "database \<Rightarrow> nat \<Rightarrow> nat \<Rightarrow> Message list" where
  "load_chat_history db room_id limit =
     take limit (sort_key message_created_at
       (filter (\<lambda>m. message_chat_id m = room_id) (messages db)))"

text \<open>
  What the specification asks of the history instead: the up-to-\<open>limit\<close> most recent
  messages of the room, oldest first.
\<close>

definition most_recent_history :: "database \<Rightarrow> nat \<Rightarrow> nat \<Rightarrow> Message list" where
  "most_recent_history db room_id limit =
     (let ordered = sort_key message_created_at
            (filter (\<lambda>m. message_chat_id m = room_id) (messages db))
      in drop (length ordered - limit) ordered)"

subsection \<open>Rooms by stock code\<close>

definition create_chat_room_for_user ::
  "schema \<Rightarrow> database \<Rightarrow> nat \<Rightarrow> nat \<Rightarrow> ChatCreate \<Rightarrow> database \<times> (exn + Chat)" where
  "create_chat_room_for_user sch db now user_id chat_in =
     (let existing_chat =
        (case create_stock_code chat_in of
           None \<Rightarrow> None
         | Some code \<Rightarrow>
             if code = [] then None
             else query_first (filter (\<lambda>c. chat_user_id c = user_id \<and>
                                  chat_stock_code c = Some code \<and>
                                  chat_trash_can c = TrashEnum_in) (chats db)))
      in case existing_chat of
           Some chat \<Rightarrow> (db, Inr chat)
         | None \<Rightarrow>
             (let new_chat = \<lparr>chat_id = fresh_chat_id (chats db), chat_user_id = user_id,
                              chat_title = create_title chat_in,
                              chat_stock_code = create_stock_code chat_in,
                              chat_trash_can = default_trash_can sch,
                              chat_lastchat_at = default_lastchat_at sch now\<rparr>
              in if unique_violation (chats db) new_chat
                 then (db, Inl (Raised IntegrityError IntegrityError_text))
                 else (db\<lparr>chats := chats db @ [new_chat]\<rparr>, Inr new_chat)))"

definition get_chat_room_by_stock_for_user :: "database \<Rightarrow> nat \<Rightarrow> pystr \<Rightarrow> exn + Chat" where
  "get_chat_room_by_stock_for_user db user_id stock_code =
     (case query_first (filter (\<lambda>c. chat_user_id c = user_id \<and>
                          chat_stock_code c = Some stock_code \<and>
                          chat_trash_can c = TrashEnum_in) (chats db)) of
        None \<Rightarrow> Inl (HTTPException 404 (ascii ''Chat room for stock not found''))
      | Some chat \<Rightarrow> Inr chat)"

definition get_active_chat_by_stock :: "database \<Rightarrow> nat \<Rightarrow> pystr \<Rightarrow> Chat option" where
  "get_active_chat_by_stock db user_id stock_code =
     query_first (filter (\<lambda>c. chat_user_id c = user_id \<and>
                    chat_stock_code c = Some stock_code \<and>
                    chat_trash_can c = TrashEnum_out) (chats db))"







section \<open>The reply orchestrator\<close>

text \<open>
  Modelled from the spec: \<open>rag_service\<close> and \<open>news_vector_service\<close> are not among the
  sources. A news document exposes a title, a publication date and a content, each of
  which may be missing; the date is kept as the text it prints as. The retrieval engine
  is the function \<open>similarity_search\<close> of the query (the top-k and the threshold are
  constants of the configuration). \<open>news\<close> is \<open>None\<close> when \<open>get_news_session\<close> could not be
  imported, and an exception when opening the session raises.
\<close>

record news_doc =
  doc_title :: "pystr option"
  doc_published_at :: "pystr option"
  doc_content :: "pystr option"

type_synonym similarity_search = "pystr \<Rightarrow> exn + news_doc list"

definition convert_history_to_openai_messages ::
  "Message list \<Rightarrow> pystr option \<Rightarrow> chat_message list" where
  "convert_history_to_openai_messages history system_prompt =
     (case system_prompt of
        None \<Rightarrow> []
      | Some p \<Rightarrow> if p = [] then []
                  else [[(ascii ''role'', PStr (ascii ''system'')), (ascii ''content'', PStr p)]])
     @ map (\<lambda>m. [(ascii ''role'', PStr (RoleEnum_value (message_role m))),
                  (ascii ''content'', PStr (message_content m))]) history"

definition extract_latest_user_text :: "Message list \<Rightarrow> pystr option" where
  "extract_latest_user_text history =
     map_option message_content
       (find (\<lambda>m. RoleEnum_value (message_role m) = RoleEnum_value RoleEnum_user) (rev history))"

text \<open>
  \<open>re.sub(r"\s+", " ", s)\<close>: every maximal run of whitespace becomes one space. The flag
  tells that the character before was whitespace.
\<close>

fun collapse_ws :: "ucd \<Rightarrow> bool \<Rightarrow> pystr \<Rightarrow> pystr" where
  "collapse_ws U in_run [] = []"
| "collapse_ws U in_run (c # cs) =
     (if py_isspace U c
      then (if in_run then collapse_ws U True cs else 32 # collapse_ws U True cs)
      else c # collapse_ws U False cs)"

text \<open>The slice \<open>xs[:k]\<close>, which counts from the end when \<open>k\<close> is negative.\<close>

definition py_slice_to :: "'a list \<Rightarrow> int \<Rightarrow> 'a list" where
  "py_slice_to xs k = (if 0 \<le> k then take (nat k) xs else take (length xs - nat (- k)) xs)"

fun run_queries :: "similarity_search \<Rightarrow> pystr list \<Rightarrow> exn + news_doc list" where
  "run_queries search [] = Inr []"
| "run_queries search (query # rest) =
     (case search query of
        Inl e \<Rightarrow> Inl e
      | Inr docs \<Rightarrow> if docs \<noteq> [] then Inr docs else run_queries search rest)"

definition or_default :: "pystr option \<Rightarrow> pystr \<Rightarrow> pystr" where
  "or_default v d = (case v of None \<Rightarrow> d | Some s \<Rightarrow> if s \<noteq> [] then s else d)"

definition summary_line :: "ucd \<Rightarrow> nat \<times> news_doc \<Rightarrow> pystr" where
  "summary_line U entry =
     (let idx = fst entry; doc = snd entry;
          title = or_default (doc_title doc) [51228, 47785, 32, 50630, 51020];
          published_at = or_default (doc_published_at doc) [48156, 54665, 51068, 32, 48120, 49345];
          raw_content = or_default (doc_content doc) [];
          snippet0 = py_strip U (collapse_ws U False raw_content);
          snippet = (if length snippet0 > 200 then take 200 snippet0 @ ascii ''...'' else snippet0)
      in str_nat idx @ ascii ''. '' @ title @ ascii '' ('' @ published_at @ ascii ''): '' @ snippet)"

definition build_rag_news_summary ::
  "ucd \<Rightarrow> config \<Rightarrow> (exn + similarity_search) option \<Rightarrow> pystr option \<Rightarrow> pystr option \<Rightarrow> int
     \<Rightarrow> pystr option \<times> news_doc list" where
  "build_rag_news_summary U cfg news stock_code latest_user_text max_items =
     (case stock_code of
        None \<Rightarrow> (None, [])
      | Some code \<Rightarrow>
          if \<not> ENABLE_RAG_NEWS cfg \<or> code = [] then (None, [])
          else
            (case news of
               None \<Rightarrow> (None, [])
             | Some (Inl e) \<Rightarrow> (None, [])
             | Some (Inr search) \<Rightarrow>
                 (let queries = (case latest_user_text of
                                   None \<Rightarrow> []
                                 | Some t \<Rightarrow> if t \<noteq> [] then [t] else [])
                                @ [code]
                  in case run_queries search queries of
                       Inl e \<Rightarrow> (None, [])
                     | Inr docs \<Rightarrow>
                         if docs = [] then (None, [])
                         else
                           (let shown = py_slice_to docs max_items;
                                summary_lines =
                                  map (summary_line U) (zip [1..<Suc (length shown)] shown)
                            in (Some ([91, 45684, 49828, 32, 50836, 50557, 93, 10]
                                      @ code
                                      @ [32, 44288, 47144, 32, 52572, 49888, 32, 44592, 49324,
                                         50640, 49436, 32, 52628, 52636, 54620, 32, 54645, 49900,
                                         32, 45236, 50857, 51077, 45768, 45796, 46, 32, 54596,
                                         50836, 54620, 32, 44221, 50864, 32, 50500, 47000, 32,
                                         51221, 48372, 47484, 32, 52280, 44256, 54644, 32, 45813,
                                         48320, 54616, 49464, 50836, 46, 10]
                                      @ join [10] summary_lines),
                                shown)))))"

definition save_user_message ::
  "database \<Rightarrow> nat \<Rightarrow> nat \<Rightarrow> nat \<Rightarrow> pystr \<Rightarrow> database \<times> (exn + Message)" where
  "save_user_message db now room_id user_id content =
     (case ensure_room_ownership db room_id user_id of
        Inl e \<Rightarrow> (db, Inl e)
      | Inr chat \<Rightarrow>
          (let db_message = \<lparr>messages_id = fresh_messages_id (messages db),
                             message_chat_id = room_id, message_user_id = user_id,
                             message_role = RoleEnum_user, message_content = content,
                             message_created_at = now\<rparr>
           in (db\<lparr>chats := put_chat (chats db) (chat\<lparr>chat_lastchat_at := Some now\<rparr>),
                  messages := messages db @ [db_message]\<rparr>,
               Inr db_message)))"

definition reference_line :: "nat \<times> news_doc \<Rightarrow> pystr" where
  "reference_line entry =
     (let idx = fst entry; doc = snd entry;
          title = or_default (doc_title doc) [51228, 47785, 32, 50630, 51020];
          published_at = or_default (doc_published_at doc) [45216, 51676, 32, 48120, 49345]
      in str_nat idx @ ascii ''. '' @ title @ ascii '' ('' @ published_at @ [41, 10])"

definition generate_and_save_assistant_reply ::
  "ucd \<Rightarrow> config \<Rightarrow> nat \<Rightarrow> heap \<Rightarrow> sdk \<Rightarrow> (exn + similarity_search) option \<Rightarrow> database \<Rightarrow> nat
     \<Rightarrow> nat \<Rightarrow> nat \<Rightarrow> pystr option \<Rightarrow> database \<times> (exn + Message)" where
  "generate_and_save_assistant_reply U cfg fuel h s news db now room_id user_id system_prompt =
     (case ensure_room_ownership db room_id user_id of
        Inl e \<Rightarrow> (db, Inl e)
      | Inr chat \<Rightarrow>
          (let history = load_chat_history db room_id 30;
               latest_user_text = extract_latest_user_text history;
               (rag_summary, news_docs) =
                 build_rag_news_summary U cfg news (chat_stock_code chat) latest_user_text
                   (RAG_NEWS_SUMMARY_LIMIT cfg);
               converted = convert_history_to_openai_messages history system_prompt;
               insert_idx = (if system_prompt \<noteq> None \<and> system_prompt \<noteq> Some [] then 1 else 0);
               oai_messages =
                 (case rag_summary of
                    None \<Rightarrow> converted
                  | Some summary \<Rightarrow>
                      if summary = [] then converted
                      else take insert_idx converted
                           @ [[(ascii ''role'', PStr (ascii ''system'')),
                               (ascii ''content'', PStr summary)]]
                           @ drop insert_idx converted)
           in case fst (call_openai_chat U cfg fuel h s oai_messages (OPENAI_MODEL_DEFAULT cfg)
                          (OPENAI_TEMPERATURE_DEFAULT cfg) (OPENAI_MAX_TOKENS_DEFAULT cfg)) of
                Inl e \<Rightarrow> (db, Inl e)
              | Inr reply \<Rightarrow>
                  (let assistant_text =
                         (if news_docs \<noteq> []
                          then reply @ [10, 10, 91, 52280, 44256, 32, 45684, 49828, 93, 10]
                               @ concat (map reference_line
                                           (zip [1..<Suc (length news_docs)] news_docs))
                          else reply);
                       assistant_message =
                         \<lparr>messages_id = fresh_messages_id (messages db),
                          message_chat_id = room_id, message_user_id = user_id,
                          message_role = RoleEnum_assistant, message_content = assistant_text,
                          message_created_at = now\<rparr>
                   in (db\<lparr>chats := put_chat (chats db) (chat\<lparr>chat_lastchat_at := Some now\<rparr>),
                          messages := messages db @ [assistant_message]\<rparr>,
                       Inr assistant_message))))"

text \<open>
  A Python tuple is the list of its components; the components the service and the
  router pass around are messages and lists of news documents.
\<close>

datatype retval = RMessage Message | RDocs "news_doc list"

definition create_message_and_reply ::
  "ucd \<Rightarrow> config \<Rightarrow> nat \<Rightarrow> heap \<Rightarrow> sdk \<Rightarrow> (exn + similarity_search) option \<Rightarrow> database \<Rightarrow> nat
     \<Rightarrow> nat \<Rightarrow> nat \<Rightarrow> nat \<Rightarrow> pystr \<Rightarrow> pystr option \<Rightarrow> database \<times> (exn + retval list)" where
  "create_message_and_reply U cfg fuel h s news db now1 now2 room_id user_id content system_prompt =
     (case save_user_message db now1 room_id user_id content of
        (db1, Inl e) \<Rightarrow> (db1, Inl e)
      | (db1, Inr user_msg) \<Rightarrow>
          (case generate_and_save_assistant_reply U cfg fuel h s news db1 now2 room_id user_id
                  system_prompt of
             (db2, Inl e) \<Rightarrow> (db2, Inl e)
           | (db2, Inr assistant_msg) \<Rightarrow> (db2, Inr [RMessage user_msg, RMessage assistant_msg])))"

text \<open>
  The route \<open>create_message_with_openai\<close> of \<open>routers/chat.py\<close> unpacks the result into
  three names, \<open>user_message, assistant_message, news_docs\<close>, which raises \<open>ValueError\<close>
  unless the tuple has three components.
\<close>

record ChatCompletionResponse =
  response_user_message :: Message
  response_assistant_message :: Message
  response_referenced_news :: "news_doc list"

definition unpack_text :: "nat \<Rightarrow> pystr" where
  "unpack_text n =
     (if n < 3 then ascii ''not enough values to unpack (expected 3, got '' @ str_nat n @ ascii '')''
      else ascii ''too many values to unpack (expected 3)'')"

definition create_message_with_openai ::
  "ucd \<Rightarrow> config \<Rightarrow> nat \<Rightarrow> heap \<Rightarrow> sdk \<Rightarrow> (exn + similarity_search) option \<Rightarrow> database \<Rightarrow> nat
     \<Rightarrow> nat \<Rightarrow> nat \<Rightarrow> nat \<Rightarrow> pystr \<Rightarrow> pystr option
     \<Rightarrow> database \<times> (exn + ChatCompletionResponse)" where
  "create_message_with_openai U cfg fuel h s news db now1 now2 room_id user_id content system_prompt =
     (case create_message_and_reply U cfg fuel h s news db now1 now2 room_id user_id content
             system_prompt of
        (db1, Inl e) \<Rightarrow> (db1, Inl e)
      | (db1, Inr result) \<Rightarrow>
          (case result of
             [RMessage user_message, RMessage assistant_message, RDocs news_docs] \<Rightarrow>
               (db1, Inr \<lparr>response_user_message = user_message,
                          response_assistant_message = assistant_message,
                          response_referenced_news = news_docs\<rparr>)
           | [a, b, c] \<Rightarrow> (db1, Inl (Raised ValueError (ascii ''validation error'')))
           | _ \<Rightarrow> (db1, Inl (Raised ValueError (unpack_text (length result))))))"


section \<open>Example data\<close>

text \<open>Concrete rooms and messages on which the theorems below run the model.\<close>

definition example_message :: "nat \<Rightarrow> Message" where
  "example_message i =
     \<lparr>messages_id = i, message_chat_id = 1, message_user_id = 1,
      message_role = (if even i then RoleEnum_assistant else RoleEnum_user),
      message_content = ascii ''hello'', message_created_at = i\<rparr>"

definition example_room :: "TrashEnum \<Rightarrow> Chat" where
  "example_room t =
     \<lparr>chat_id = 1, chat_user_id = 1, chat_title = Some (ascii ''Apple''),
      chat_stock_code = Some (ascii ''AAPL''), chat_trash_can = t,
      chat_lastchat_at = None\<rparr>"

definition example_db :: "TrashEnum \<Rightarrow> nat \<Rightarrow> database" where
  "example_db t n = \<lparr>chats = [example_room t], messages = map example_message [1..<Suc n]\<rparr>"

definition example_schema :: schema where
  "example_schema = \<lparr>default_trash_can = TrashEnum_out, default_lastchat_at = (\<lambda>now. Some now)\<rparr>"

text \<open>A list that contains itself: \<open>a = []; a.append(a)\<close>.\<close>

definition self_heap :: heap where
  "self_heap = (\<lambda>a. CList [])(0 := CList [PRef 0])"

text \<open>A payload of the shape the provider sends: a dict holding a list of content blocks.\<close>

definition example_payload :: pyval where
  "example_payload =
     PDict [(ascii ''content'',
             PList [PDict [(ascii ''type'', PStr (ascii ''output_text'')),
                           (ascii ''text'', PStr (ascii ''Hi''))]])]"

text \<open>An object whose fields are there and hold no text, and whose rendering is blank.\<close>

definition empty_fields_object :: pyval where
  "empty_fields_object =
     PObj [(ascii ''value'', PStr []), (ascii ''text'', PNone), (ascii ''content'', PList [])]
          (ascii ''  '') (ascii ''<obj>'')"

text \<open>
  Three clients: one whose every response is cut at the token limit, one whose response
  holds no output, and one whose completion holds no choice.
\<close>

definition truncating_client :: client where
  "truncating_client = (\<lambda>sent req.
     Inr \<lparr>resp_obj = PDict [(ascii ''incomplete_details'',
                               PDict [(ascii ''reason'', PStr (ascii ''max_output_tokens''))])],
          resp_model_dump = None\<rparr>)"

definition silent_client :: client where
  "silent_client = (\<lambda>sent req.
     Inr \<lparr>resp_obj = PDict [(ascii ''output'', PList [])], resp_model_dump = None\<rparr>)"

definition choiceless_client :: client where
  "choiceless_client = (\<lambda>sent req.
     Inr \<lparr>resp_obj = PObj [(ascii ''choices'', PList [])] (ascii ''ChatCompletion()'')
                         (ascii ''ChatCompletion()''),
          resp_model_dump = None\<rparr>)"

text \<open>
  Two clients whose response holds the number 5 where the output list is expected:
  \<open>{"output": 5}\<close>, and the same response cut at the token limit.
\<close>

definition unsized_client :: client where
  "unsized_client = (\<lambda>sent req.
     Inr \<lparr>resp_obj = PDict [(ascii ''output'', PInt 5)], resp_model_dump = None\<rparr>)"

definition truncating_unsized_client :: client where
  "truncating_unsized_client = (\<lambda>sent req.
     Inr \<lparr>resp_obj = PDict [(ascii ''output'', PInt 5),
                              (ascii ''incomplete_details'',
                               PDict [(ascii ''reason'', PStr (ascii ''max_output_tokens''))])],
          resp_model_dump = None\<rparr>)"

text \<open>A client that answers every request with the text \<open>Hi\<close>.\<close>

definition greeting_client :: client where
  "greeting_client = (\<lambda>sent req.
     Inr \<lparr>resp_obj = PDict [(ascii ''output_text'', PStr (ascii ''Hi''))],
          resp_model_dump = None\<rparr>)"


section \<open>Properties\<close>

subsection \<open>Stock-code normalization\<close>

lemma upper_keeps_lines_plain: "upper_keeps_lines plain_ucd"
  by (simp add: upper_keeps_lines_def plain_ucd_def)

lemma newline_not_in_upper:
  assumes "upper_keeps_lines U"
  shows "10 \<notin> set (py_upper U (re_sub_ws_empty U raw))"
proof
  assume "10 \<in> set (py_upper U (re_sub_ws_empty U raw))"
  then obtain c where c: "c \<in> set raw" "\<not> py_isspace U c" "10 \<in> set (py_upper_cp U c)"
    by (auto simp: py_upper_def re_sub_ws_empty_def)
  show False
  proof (cases "c < 128")
    case True
    with c show False
      by (auto simp: py_upper_cp_def py_isspace_def split: if_splits)
  next
    case False
    with c assms show False
      by (auto simp: py_upper_cp_def upper_keeps_lines_def)
  qed
qed

lemma pattern_match_body:
  assumes "10 \<notin> set s"
  shows "STOCK_CODE_PATTERN_match s = stock_code_body s"
proof -
  have "\<not> (s \<noteq> [] \<and> last s = 10)"
    using assms last_in_set by metis
  then show ?thesis
    by (auto simp: STOCK_CODE_PATTERN_match_def)
qed

lemma stock_code_char_clean:
  assumes "stock_code_char c"
  shows "\<not> py_isspace U c \<and> \<not> (97 \<le> c \<and> c \<le> 122)"
  using assms by (auto simp: stock_code_char_def py_isspace_def)

text \<open>
  C10. With \<open>N\<close> the raw code with all whitespace deleted and then upper-cased:
  if \<open>N\<close> is empty, longer than 20 characters or has a character outside
  \<open>A-Z\<close>, \<open>0-9\<close>, \<open>.\<close>, \<open>-\<close>, normalization fails with a \<open>ValueError\<close> (the router turns
  it into a validation error); otherwise it returns \<open>N\<close>, which has no whitespace and no
  lower-case letter, whatever lower-case letters or whitespace the raw code had.
\<close>

theorem normalize_stock_code_spec:
  assumes "upper_keeps_lines U"
  shows "(let N = py_upper U (re_sub_ws_empty U raw) in
          if N = [] \<or> 20 < length N \<or> \<not> list_all stock_code_char N
          then \<exists>msg. normalize_stock_code U (Some raw) = Inl (Raised ValueError msg)
          else normalize_stock_code U (Some raw) = Inr N
               \<and> list_all (\<lambda>c. \<not> py_isspace U c \<and> \<not> (97 \<le> c \<and> c \<le> 122)) N)"
proof -
  define N where "N = py_upper U (re_sub_ws_empty U raw)"
  have nl: "10 \<notin> set N"
    unfolding N_def by (rule newline_not_in_upper [OF assms])
  have m: "STOCK_CODE_PATTERN_match N = stock_code_body N"
    by (rule pattern_match_body [OF nl])
  have clean: "list_all stock_code_char N \<Longrightarrow>
      list_all (\<lambda>c. \<not> py_isspace U c \<and> \<not> (97 \<le> c \<and> c \<le> 122)) N"
    using stock_code_char_clean by (auto simp: list_all_iff)
  have main: "if N = [] \<or> 20 < length N \<or> \<not> list_all stock_code_char N
        then \<exists>msg. normalize_stock_code U (Some raw) = Inl (Raised ValueError msg)
        else normalize_stock_code U (Some raw) = Inr N
             \<and> list_all (\<lambda>c. \<not> py_isspace U c \<and> \<not> (97 \<le> c \<and> c \<le> 122)) N"
    using m clean
    by (cases N)
       (auto simp: normalize_stock_code_def N_def [symmetric] stock_code_body_def Let_def)
  show ?thesis
    unfolding Let_def using main unfolding N_def .
qed

theorem normalize_stock_code_spec_witness:
  "upper_keeps_lines plain_ucd
   \<and> normalize_stock_code plain_ucd (Some (ascii '' aa pl '')) = Inr (ascii ''AAPL'')
   \<and> (\<exists>msg. normalize_stock_code plain_ucd (Some (ascii ''a$'')) = Inl (Raised ValueError msg))"
proof -
  have a: "py_upper plain_ucd (re_sub_ws_empty plain_ucd (ascii '' aa pl '')) = ascii ''AAPL''"
    by (simp add: py_upper_def re_sub_ws_empty_def py_isspace_def py_upper_cp_def ascii_def)
  have b: "py_upper plain_ucd (re_sub_ws_empty plain_ucd (ascii ''a$'')) = ascii ''A$''"
    by (simp add: py_upper_def re_sub_ws_empty_def py_isspace_def py_upper_cp_def ascii_def)
  from normalize_stock_code_spec [OF upper_keeps_lines_plain, of "ascii '' aa pl ''"]
  have 1: "normalize_stock_code plain_ucd (Some (ascii '' aa pl '')) = Inr (ascii ''AAPL'')"
    unfolding a by (simp add: ascii_def stock_code_char_def split: if_splits)
  from normalize_stock_code_spec [OF upper_keeps_lines_plain, of "ascii ''a$''"]
  have 2: "\<exists>msg. normalize_stock_code plain_ucd (Some (ascii ''a$'')) = Inl (Raised ValueError msg)"
    unfolding b by (simp add: ascii_def stock_code_char_def split: if_splits)
  from 1 2 upper_keeps_lines_plain show ?thesis by simp
qed

subsection \<open>History and lookups by stock code\<close>




text \<open>
  C2. The history query sorts ascending and then cuts: of a room with 31 messages it
  returns the 30 oldest and leaves out the newest one, where the most recent 30 were
  asked for.
\<close>

theorem load_chat_history_keeps_oldest:
  "load_chat_history (example_db TrashEnum_out 31) 1 30 = map example_message [1..<31]
   \<and> most_recent_history (example_db TrashEnum_out 31) 1 30 = map example_message [2..<32]
   \<and> example_message 31 \<notin> set (load_chat_history (example_db TrashEnum_out 31) 1 30)"
  by (simp add: load_chat_history_def most_recent_history_def example_db_def
      example_message_def upt_rec Let_def)

text \<open>
  C3. \<open>get_active_chat_by_stock\<close> filters on the trash state \<open>out\<close>, but the lookup of
  \<open>get_chat_room_by_stock_for_user\<close> and the dedup lookup of \<open>create_chat_room_for_user\<close>
  filter on \<open>in\<close>: for a user whose only room for the code is in the trash can they
  return that room, and for a user whose room is active the first finds none.
\<close>

theorem stock_lookup_returns_trashed_room:
  "get_chat_room_by_stock_for_user (example_db TrashEnum_in 0) 1 (ascii ''AAPL'')
     = Inr (example_room TrashEnum_in)
   \<and> create_chat_room_for_user example_schema (example_db TrashEnum_in 0) 5 1
        \<lparr>create_title = Some (ascii ''again''), create_stock_code = Some (ascii ''AAPL'')\<rparr>
     = (example_db TrashEnum_in 0, Inr (example_room TrashEnum_in))
   \<and> chat_trash_can (example_room TrashEnum_in) = TrashEnum_in
   \<and> get_active_chat_by_stock (example_db TrashEnum_in 0) 1 (ascii ''AAPL'') = None
   \<and> get_chat_room_by_stock_for_user (example_db TrashEnum_out 0) 1 (ascii ''AAPL'')
     = Inl (HTTPException 404 (ascii ''Chat room for stock not found''))"
  by (simp add: get_chat_room_by_stock_for_user_def create_chat_room_for_user_def
      get_active_chat_by_stock_def example_db_def example_room_def query_first_def
      ascii_def Let_def)


subsection \<open>Find or create by stock code\<close>














subsection \<open>The text normalizer\<close>

lemma coerce_empty_sequence:
  "coerce_text_value U (Suc n) h (PList []) = Inr None"
  "coerce_text_value U (Suc n) h (PTuple []) = Inr None"
  by (simp_all add: deref_def)

lemma coerce_string: "coerce_text_value U (Suc n) h (PStr s) = Inr (Some s)"
  by (simp add: deref_def)

lemma coerce_empty_dict:
  "coerce_text_value U (Suc (Suc n)) h (PDict []) = Inr (Some (ascii ''{}''))"
  by (simp add: deref_def nested_keys_def get_from_obj_def py_str_def py_strip_def
      py_isspace_def ascii_def)

lemma first_resolved_none:
  assumes "\<forall>r\<in>set rs. r = Inr None \<or> r = Inr (Some [])"
  shows "first_resolved rs = Inr None"
  using assms by (induction rs) auto

lemma coerce_blank_object:
  assumes fields: "\<forall>key\<in>set nested_keys.
                     deref h (get_from_obj h (PObj attrs str_text r) key PNone) = PNone
                     \<or> coerce_text_value U n h (get_from_obj h (PObj attrs str_text r) key PNone)
                           \<in> {Inr None, Inr (Some [])}"
    and blank: "py_strip U str_text = []"
  shows "coerce_text_value U (Suc n) h (PObj attrs str_text r) = Inr None"
proof -
  have "first_resolved
          (map (\<lambda>key. let nested = get_from_obj h (PObj attrs str_text r) key PNone
                      in if deref h nested = PNone then Inr None
                         else coerce_text_value U n h nested) nested_keys) = Inr None"
    using fields by (intro first_resolved_none) (auto simp: Let_def)
  moreover have "py_str U n h (PObj attrs str_text r) = Inr str_text"
    by (simp add: py_str_def)
  ultimately show ?thesis
    using blank by (simp add: deref_def)
qed

lemma coerce_a_b:
  "coerce_text_value U (Suc (Suc n)) h (PList [PStr (ascii ''a''), PStr [], PStr (ascii ''b'')])
     = Inr (Some (ascii ''a'' @ [10] @ ascii ''b''))"
  by (simp add: deref_def ascii_def)

text \<open>
  C4, as the code has it. An empty list or tuple gives \<open>None\<close>. So does every object
  none of whose fields \<open>value\<close>, \<open>text\<close> and \<open>content\<close> yields text (each of them is
  missing, is \<open>None\<close>, or is coerced to \<open>None\<close> or to the empty string) and whose
  rendering by \<open>str\<close> is blank after trimming. \<open>["a", "", "b"]\<close> gives \<open>"a\\nb"\<close>. But a
  string is returned as it is, also when it is all whitespace, and an empty dict gives
  its rendering \<open>"{}"\<close>.
\<close>

theorem coerce_text_value_examples:
  "coerce_text_value U (Suc n) h (PList []) = Inr None
   \<and> coerce_text_value U (Suc n) h (PTuple []) = Inr None
   \<and> ((\<forall>key\<in>set nested_keys.
           deref h (get_from_obj h (PObj attrs str_text r) key PNone) = PNone
           \<or> coerce_text_value U n h (get_from_obj h (PObj attrs str_text r) key PNone)
                 \<in> {Inr None, Inr (Some [])})
        \<and> py_strip U str_text = []
        \<longrightarrow> coerce_text_value U (Suc n) h (PObj attrs str_text r) = Inr None)
   \<and> coerce_text_value U (Suc n) h (PStr s) = Inr (Some s)
   \<and> coerce_text_value U (Suc (Suc n)) h (PDict []) = Inr (Some (ascii ''{}''))
   \<and> coerce_text_value U (Suc (Suc n)) h (PList [PStr (ascii ''a''), PStr [], PStr (ascii ''b'')])
       = Inr (Some (ascii ''a'' @ [10] @ ascii ''b''))"
proof (intro conjI impI)
  show "coerce_text_value U (Suc n) h (PList []) = Inr None"
    by (rule coerce_empty_sequence)
  show "coerce_text_value U (Suc n) h (PTuple []) = Inr None"
    by (rule coerce_empty_sequence)
  show "coerce_text_value U (Suc n) h (PObj attrs str_text r) = Inr None"
    if "(\<forall>key\<in>set nested_keys.
           deref h (get_from_obj h (PObj attrs str_text r) key PNone) = PNone
           \<or> coerce_text_value U n h (get_from_obj h (PObj attrs str_text r) key PNone)
                 \<in> {Inr None, Inr (Some [])})
        \<and> py_strip U str_text = []"
    using that by (intro coerce_blank_object) simp_all
  show "coerce_text_value U (Suc n) h (PStr s) = Inr (Some s)"
    by (rule coerce_string)
  show "coerce_text_value U (Suc (Suc n)) h (PDict []) = Inr (Some (ascii ''{}''))"
    by (rule coerce_empty_dict)
  show "coerce_text_value U (Suc (Suc n)) h (PList [PStr (ascii ''a''), PStr [], PStr (ascii ''b'')])
       = Inr (Some (ascii ''a'' @ [10] @ ascii ''b''))"
    by (rule coerce_a_b)
qed

theorem coerce_text_value_examples_witness:
  "coerce_text_value plain_ucd 999 empty_heap
      (get_from_obj empty_heap empty_fields_object (ascii ''value'') PNone) = Inr (Some [])
   \<and> deref empty_heap (get_from_obj empty_heap empty_fields_object (ascii ''text'') PNone) = PNone
   \<and> coerce_text_value plain_ucd 999 empty_heap
      (get_from_obj empty_heap empty_fields_object (ascii ''content'') PNone) = Inr None
   \<and> py_strip plain_ucd (ascii ''  '') = []
   \<and> coerce_text_value plain_ucd 1000 empty_heap empty_fields_object = Inr None
   \<and> coerce_text_value plain_ucd 1000 empty_heap
         (PList [PStr (ascii ''a''), PStr [], PStr (ascii ''b'')]) = Inr (Some (ascii ''a'' @ [10] @ ascii ''b''))"
proof -
  have s: "py_strip plain_ucd (ascii ''  '') = []"
    by (simp add: py_strip_def py_isspace_def ascii_def)
  have n: "Suc (Suc 998) = 1000" "Suc 999 = 1000" "Suc 998 = 999" by simp_all
  have c: "coerce_text_value plain_ucd 999 empty_heap (PStr []) = Inr (Some [])"
    "coerce_text_value plain_ucd 999 empty_heap (PList []) = Inr None"
    using coerce_string [of plain_ucd 998 empty_heap "[]"]
      coerce_empty_sequence(1) [of plain_ucd 998 empty_heap]
    unfolding n by simp_all
  have f: "\<forall>key\<in>set nested_keys.
      deref empty_heap (get_from_obj empty_heap empty_fields_object key PNone) = PNone
      \<or> coerce_text_value plain_ucd 999 empty_heap
            (get_from_obj empty_heap empty_fields_object key PNone) \<in> {Inr None, Inr (Some [])}"
    using c by (simp add: nested_keys_def empty_fields_object_def get_from_obj_def deref_def
        ascii_def)
  from coerce_text_value_examples [where U = plain_ucd and n = 999 and h = empty_heap
      and attrs = "[(ascii ''value'', PStr []), (ascii ''text'', PNone), (ascii ''content'', PList [])]"
      and str_text = "ascii ''  ''" and r = "ascii ''<obj>''"] f s
  have "coerce_text_value plain_ucd 1000 empty_heap empty_fields_object = Inr None"
    unfolding n empty_fields_object_def by blast
  moreover from coerce_text_value_examples [where U = plain_ucd and n = 998 and h = empty_heap]
  have "coerce_text_value plain_ucd 1000 empty_heap
         (PList [PStr (ascii ''a''), PStr [], PStr (ascii ''b'')]) = Inr (Some (ascii ''a'' @ [10] @ ascii ''b''))"
    unfolding n by blast
  moreover have "coerce_text_value plain_ucd 999 empty_heap
      (get_from_obj empty_heap empty_fields_object (ascii ''value'') PNone) = Inr (Some [])"
    and "deref empty_heap (get_from_obj empty_heap empty_fields_object (ascii ''text'') PNone) = PNone"
    and "coerce_text_value plain_ucd 999 empty_heap
      (get_from_obj empty_heap empty_fields_object (ascii ''content'') PNone) = Inr None"
    using c by (simp_all add: empty_fields_object_def get_from_obj_def deref_def ascii_def)
  ultimately show ?thesis using s by blast
qed

text \<open>
  The sentence of the specification fails on a whitespace-only string, which comes back
  unchanged, and on the empty dict, which comes back as \<open>"{}"\<close>.
\<close>

theorem coerce_text_value_blank_counterexample:
  "coerce_text_value plain_ucd 1000 empty_heap (PStr (ascii ''   '')) = Inr (Some (ascii ''   ''))
   \<and> coerce_text_value plain_ucd 1000 empty_heap (PDict []) = Inr (Some (ascii ''{}''))"
proof -
  have n: "Suc (Suc 998) = 1000" "Suc 999 = 1000" by simp_all
  from coerce_string [of plain_ucd 999 empty_heap "ascii ''   ''"]
    coerce_empty_dict [of plain_ucd 998 empty_heap]
  show ?thesis unfolding n by blast
qed

lemma collect_Inr:
  assumes "\<forall>r\<in>set rs. \<exists>x. r = Inr x"
  shows "\<exists>xs. collect rs = Inr xs"
  using assms by (induction rs) auto

lemma first_resolved_Inr:
  assumes "\<forall>r\<in>set rs. \<exists>x. r = Inr x"
  shows "\<exists>x. first_resolved rs = Inr x"
  using assms
proof (induction rs)
  case Nil
  then show ?case by simp
next
  case (Cons r rs)
  then obtain x where "r = Inr x" by auto
  with Cons show ?case by (cases x) auto
qed

lemma fold_max_ge:
  fixes xs :: "nat list"
  assumes "x \<in> set xs"
  shows "x \<le> fold max xs 0"
proof -
  have "fold max xs 0 = Max (set (0 # xs))"
    by (simp only: Max.set_eq_fold)
  moreover have "x \<le> Max (set (0 # xs))"
    using assms by (intro Max_ge) auto
  ultimately show ?thesis by simp
qed

lemma depth_item:
  assumes "x \<in> set items"
  shows "depth x < depth (PList items)" and "depth x < depth (PTuple items)"
  using fold_max_ge [of "depth x" "map depth items"] assms by auto

lemma depth_entry:
  assumes "(k, v) \<in> set kvs"
  shows "depth v < depth (PDict kvs)" and "depth v < depth (PObj kvs s r)"
proof -
  from assms have "depth v \<in> set (map snd (map (map_prod id depth) kvs))"
    by force
  from fold_max_ge [OF this] show "depth v < depth (PDict kvs)" and "depth v < depth (PObj kvs s r)"
    by simp_all
qed

lemma ref_free_item:
  assumes "x \<in> set items"
  shows "ref_free (PList items) \<Longrightarrow> ref_free x" and "ref_free (PTuple items) \<Longrightarrow> ref_free x"
  using assms by (auto simp: list_all_iff)

lemma ref_free_entry:
  assumes "(k, v) \<in> set kvs"
  shows "ref_free (PDict kvs) \<Longrightarrow> ref_free v" and "ref_free (PObj kvs s r) \<Longrightarrow> ref_free v"
  using assms by (force simp: list_all_iff)+

lemma small_ints_item:
  assumes "x \<in> set items"
  shows "small_ints (PList items) \<Longrightarrow> small_ints x"
    and "small_ints (PTuple items) \<Longrightarrow> small_ints x"
  using assms by (auto simp: list_all_iff)

lemma small_ints_entry:
  assumes "(k, v) \<in> set kvs"
  shows "small_ints (PDict kvs) \<Longrightarrow> small_ints v"
    and "small_ints (PObj kvs s r) \<Longrightarrow> small_ints v"
  using assms by (force simp: list_all_iff)+

lemma py_str_int_small: "\<bar>i\<bar> < 10 ^ int_max_str_digits \<Longrightarrow> py_str_int i = Inr (str_int i)"
  by (simp add: py_str_int_def)

lemma py_repr_total:
  assumes "ref_free v" and "small_ints v" and "depth v < fuel"
  shows "\<exists>s. py_repr U fuel h seen v = Inr s"
  using assms
proof (induction fuel arbitrary: v)
  case 0
  then show ?case by simp
next
  case (Suc n)
  have items: "\<exists>xs. collect (map (py_repr U n h seen) items) = Inr xs"
    if "v = PList items \<or> v = PTuple items" for items
  proof (rule collect_Inr, rule ballI)
    fix r assume "r \<in> set (map (py_repr U n h seen) items)"
    then obtain x where x: "x \<in> set items" "r = py_repr U n h seen x" by auto
    from that x(1) Suc.prems have "ref_free x" "small_ints x" "depth x < n"
      using depth_item [OF x(1)] ref_free_item [OF x(1)] small_ints_item [OF x(1)] by auto
    with Suc.IH x(2) show "\<exists>y. r = Inr y" by simp
  qed
  have entries: "\<exists>xs. collect (map (\<lambda>kv. py_repr U n h seen (snd kv)) kvs) = Inr xs"
    if "v = PDict kvs" for kvs
  proof (rule collect_Inr, rule ballI)
    fix r assume "r \<in> set (map (\<lambda>kv. py_repr U n h seen (snd kv)) kvs)"
    then obtain k x where x: "(k, x) \<in> set kvs" "r = py_repr U n h seen x" by auto
    from that x(1) Suc.prems have "ref_free x" "small_ints x" "depth x < n"
      using depth_entry(1) [OF x(1)] ref_free_entry(1) [OF x(1)] small_ints_entry(1) [OF x(1)]
      by auto
    with Suc.IH x(2) show "\<exists>y. r = Inr y" by simp
  qed
  show ?case
  proof (cases v)
    case (PInt i)
    with Suc.prems show ?thesis by (simp add: py_str_int_small)
  next
    case (PList items)
    with items [of items] show ?thesis by auto
  next
    case (PTuple items)
    with items [of items] show ?thesis by auto
  next
    case (PDict kvs)
    with entries [of kvs] show ?thesis by auto
  next
    case (PRef a)
    with Suc.prems show ?thesis by simp
  qed simp_all
qed

lemma py_str_total:
  assumes "ref_free v" and "small_ints v" and "depth v < fuel"
  shows "\<exists>s. py_str U fuel h v = Inr s"
  using py_repr_total [OF assms, of U h "[]"]
  by (cases v) (simp_all add: py_str_def)

lemma deref_ref_free: "ref_free v \<Longrightarrow> deref h v = v"
  by (cases v) (simp_all add: deref_def)

lemma get_from_obj_child:
  assumes "ref_free v" and "small_ints v"
  shows "get_from_obj h v key PNone = PNone
         \<or> (ref_free (get_from_obj h v key PNone) \<and> small_ints (get_from_obj h v key PNone)
            \<and> depth (get_from_obj h v key PNone) < depth v)"
proof (cases v)
  case (PDict kvs)
  show ?thesis
  proof (cases "map_of kvs key")
    case None
    with PDict show ?thesis by (simp add: get_from_obj_def deref_def)
  next
    case (Some x)
    then have "(key, x) \<in> set kvs" by (rule map_of_SomeD)
    from depth_entry(1) [OF this] ref_free_entry(1) [OF this] small_ints_entry(1) [OF this]
      assms PDict Some
    show ?thesis by (simp add: get_from_obj_def deref_def)
  qed
next
  case (PObj kvs s r)
  show ?thesis
  proof (cases "map_of kvs key")
    case None
    with PObj show ?thesis by (simp add: get_from_obj_def deref_def)
  next
    case (Some x)
    then have "(key, x) \<in> set kvs" by (rule map_of_SomeD)
    from depth_entry(2) [OF this] ref_free_entry(2) [OF this] small_ints_entry(2) [OF this]
      assms PObj Some
    show ?thesis by (simp add: get_from_obj_def deref_def)
  qed
next
  case (PRef a)
  with assms show ?thesis by simp
qed (simp_all add: get_from_obj_def deref_def)

lemma coerce_text_value_returns:
  assumes "ref_free v" and "small_ints v" and "depth v + 1 < fuel"
  shows "\<exists>r. coerce_text_value U fuel h v = Inr r"
  using assms
proof (induction fuel arbitrary: v)
  case 0
  then show ?case by simp
next
  case (Suc n)
  have d: "deref h v = v" by (rule deref_ref_free [OF Suc.prems(1)])
  have items: "\<exists>xs. collect (map (coerce_text_value U n h) items) = Inr xs"
    if "v = PList items \<or> v = PTuple items" for items
  proof (rule collect_Inr, rule ballI)
    fix r assume "r \<in> set (map (coerce_text_value U n h) items)"
    then obtain x where x: "x \<in> set items" "r = coerce_text_value U n h x" by auto
    from that x(1) Suc.prems have "ref_free x" "small_ints x" "depth x + 1 < n"
      using depth_item [OF x(1)] ref_free_item [OF x(1)] small_ints_item [OF x(1)] by auto
    with Suc.IH x(2) show "\<exists>y. r = Inr y" by simp
  qed
  have keys: "\<exists>x. first_resolved
                  (map (\<lambda>key. let nested = get_from_obj h v key PNone
                              in if deref h nested = PNone then Inr None
                                 else coerce_text_value U n h nested) nested_keys) = Inr x"
  proof (rule first_resolved_Inr, rule ballI)
    fix r assume "r \<in> set (map (\<lambda>key. let nested = get_from_obj h v key PNone
                              in if deref h nested = PNone then Inr None
                                 else coerce_text_value U n h nested) nested_keys)"
    then obtain key where r: "r = (let nested = get_from_obj h v key PNone
                              in if deref h nested = PNone then Inr None
                                 else coerce_text_value U n h nested)" by auto
    from get_from_obj_child [OF Suc.prems(1,2), of h key]
    show "\<exists>y. r = Inr y"
    proof
      assume "get_from_obj h v key PNone = PNone"
      with r show ?thesis by (simp add: deref_def)
    next
      assume c: "ref_free (get_from_obj h v key PNone) \<and> small_ints (get_from_obj h v key PNone)
                 \<and> depth (get_from_obj h v key PNone) < depth v"
      with Suc.prems have "depth (get_from_obj h v key PNone) + 1 < n" by simp
      with Suc.IH c obtain y where "coerce_text_value U n h (get_from_obj h v key PNone) = Inr y"
        by blast
      with r show ?thesis by (simp add: Let_def)
    qed
  qed
  have str: "\<exists>s. py_str U n h v = Inr s"
    using Suc.prems by (intro py_str_total) simp_all
  show ?case
  proof (cases v)
    case (PList items)
    with items [of items] d show ?thesis by (auto simp: Let_def)
  next
    case (PTuple items)
    with items [of items] d show ?thesis by (auto simp: Let_def)
  next
    case (PDict kvs)
    from keys obtain x where x: "first_resolved
                  (map (\<lambda>key. let nested = get_from_obj h v key PNone
                              in if deref h nested = PNone then Inr None
                                 else coerce_text_value U n h nested) nested_keys) = Inr x" by blast
    from str obtain s where s: "py_str U n h v = Inr s" by blast
    show ?thesis
      using PDict d x s by (cases x) (simp_all add: Let_def)
  next
    case (PObj kvs st rp)
    from keys obtain x where x: "first_resolved
                  (map (\<lambda>key. let nested = get_from_obj h v key PNone
                              in if deref h nested = PNone then Inr None
                                 else coerce_text_value U n h nested) nested_keys) = Inr x" by blast
    from str obtain s where s: "py_str U n h v = Inr s" by blast
    show ?thesis
      using PObj d x s by (cases x) (simp_all add: Let_def)
  next
    case (PInt i)
    with Suc.prems show ?thesis by (simp add: deref_def py_str_int_small)
  next
    case (PRef a)
    with Suc.prems show ?thesis by simp
  qed (simp_all add: deref_def)
qed

lemma huge_int_raises:
  "coerce_text_value U (Suc n) h (PInt (10 ^ int_max_str_digits))
     = Inl (Raised ValueError int_digits_text)"
  by (simp add: deref_def py_str_int_def)

lemma self_reference_raises:
  "coerce_text_value U fuel self_heap (PRef 0) = Inl (Raised RecursionError RecursionError_text)"
  by (induction fuel) (simp_all add: deref_def self_heap_def)

text \<open>
  C5, as the code has it. On a value that is a finite tree (it holds no reference into
  the heap), that holds no integer of more than 4300 digits and that nests less deep
  than the recursion still allowed, less two, \<open>coerce_text_value\<close> returns a string or
  \<open>None\<close> and raises nothing.
\<close>

theorem coerce_text_value_total:
  assumes "ref_free v" and "small_ints v" and "depth v + 1 < fuel"
  shows "\<exists>r. coerce_text_value U fuel h v = Inr r"
  using assms by (rule coerce_text_value_returns)

theorem coerce_text_value_total_witness:
  "ref_free example_payload \<and> small_ints example_payload \<and> depth example_payload + 1 < 1000
   \<and> (\<exists>r. coerce_text_value plain_ucd 1000 empty_heap example_payload = Inr r)"
proof -
  have a: "ref_free example_payload" and b: "depth example_payload + 1 < 1000"
    by (simp_all add: example_payload_def)
  have c: "small_ints example_payload"
    by (simp add: example_payload_def)
  from coerce_text_value_total [OF a c b] a b c show ?thesis by blast
qed

text \<open>
  There is no cap on the recursion: on a list that contains itself the function
  recurses until the interpreter stops it with \<open>RecursionError\<close>, whatever the limit. And
  the function raises on a finite value too: \<open>str\<close> of the integer \<open>10 ^ 4300\<close>, which
  has 4301 digits, raises \<open>ValueError\<close>.
\<close>

theorem coerce_text_value_self_reference_counterexample:
  "coerce_text_value plain_ucd 1000 self_heap (PRef 0)
     = Inl (Raised RecursionError RecursionError_text)
   \<and> coerce_text_value plain_ucd 1000 empty_heap (PInt (10 ^ 4300))
     = Inl (Raised ValueError int_digits_text)"
proof -
  have n: "Suc 999 = 1000" by simp
  from self_reference_raises [of plain_ucd 1000]
    huge_int_raises [of plain_ucd 999 empty_heap]
  show ?thesis unfolding n int_max_str_digits_def by blast
qed

subsection \<open>The provider dispatcher\<close>

lemma excess_bits_small: "m < 2 ^ 53 \<Longrightarrow> excess_bits m = 0"
  by (simp add: excess_bits.simps)

lemma to_53_bits_small: "m < 2 ^ 53 \<Longrightarrow> to_53_bits m = m"
  by (simp add: to_53_bits_def excess_bits_small round_half_even_def)

lemma int_times_1_5_exact:
  assumes "\<bar>x\<bar> < 2 ^ 51"
  shows "int_times_1_5 x = Inr (sgn x * ((3 * \<bar>x\<bar>) div 2))"
proof -
  from assms have a: "\<bar>x\<bar> < 2 ^ 53" and b: "3 * \<bar>x\<bar> < 2 ^ 53" by simp_all
  have c: "(3 * \<bar>x\<bar>) div 2 < 2 ^ 1024"
  proof -
    have "(3 * \<bar>x\<bar>) div 2 \<le> 3 * \<bar>x\<bar>" by simp
    also have "\<dots> < 2 ^ 53" by (rule b)
    also have "(2::int) ^ 53 \<le> 2 ^ 1024" by (rule power_increasing) simp_all
    finally show ?thesis .
  qed
  have d: "\<bar>x\<bar> < 2 ^ 1024"
  proof -
    note a
    also have "(2::int) ^ 53 \<le> 2 ^ 1024" by (rule power_increasing) simp_all
    finally show ?thesis .
  qed
  show ?thesis
    unfolding int_times_1_5_def Let_def to_53_bits_small [OF a] to_53_bits_small [OF b]
    using c d by (simp only: not_le [symmetric] if_False)
qed

lemma int_times_1_5_floor:
  assumes "0 \<le> x" and "x < 2 ^ 51"
  shows "int_times_1_5 x = Inr \<lfloor>(of_int x :: rat) * (3 / 2)\<rfloor>"
proof -
  have "(of_int x :: rat) * (3 / 2) = (of_int (3 * x) :: rat) / of_int 2"
    by simp
  then have "\<lfloor>(of_int x :: rat) * (3 / 2)\<rfloor> = \<lfloor>(of_int (3 * x) :: rat) / of_int 2\<rfloor>"
    by (rule arg_cong)
  also have "\<dots> = (3 * x) div 2"
    by (simp only: floor_divide_of_int_eq)
  finally have f: "\<lfloor>(of_int x :: rat) * (3 / 2)\<rfloor> = (3 * x) div 2" .
  from assms have "\<bar>x\<bar> < 2 ^ 51" by simp
  from int_times_1_5_exact [OF this] assms(1) f show ?thesis
    by (cases "x = 0") simp_all
qed

lemma excess_bits_bounds:
  "0 \<le> m \<Longrightarrow> m < 2 ^ (53 + excess_bits m) \<and> (0 < excess_bits m \<longrightarrow> 2 ^ (52 + excess_bits m) \<le> m)"
proof (induction m rule: excess_bits.induct)
  case (1 m)
  show ?case
  proof (cases "m < 2 ^ 53")
    case True
    then show ?thesis by (simp add: excess_bits_small)
  next
    case False
    define e where "e = excess_bits (m div 2)"
    have eq: "excess_bits m = Suc e"
      using False by (simp add: excess_bits.simps [of m] e_def)
    from 1 False have ih: "m div 2 < 2 ^ (53 + e)" "0 < e \<longrightarrow> 2 ^ (52 + e) \<le> m div 2"
      by (simp_all add: e_def)
    have up: "m < 2 ^ (53 + Suc e)"
    proof -
      have "m < 2 * (m div 2 + 1)" by presburger
      also have "\<dots> \<le> 2 * 2 ^ (53 + e)" using ih(1) by simp
      also have "\<dots> = 2 ^ (53 + Suc e)" by (simp only: add_Suc_right power_Suc)
      finally show ?thesis .
    qed
    have low: "2 ^ (52 + Suc e) \<le> m"
    proof (cases "0 < e")
      case True
      have "(2::int) ^ (52 + Suc e) = 2 * 2 ^ (52 + e)" by (simp only: add_Suc_right power_Suc)
      also from True ih(2) have "\<dots> \<le> 2 * (m div 2)" by simp
      also have "\<dots> \<le> m" by presburger
      finally show ?thesis .
    next
      case False
      then have "e = 0" by simp
      with \<open>\<not> m < 2 ^ 53\<close> show ?thesis by simp
    qed
    from up low show ?thesis by (simp only: eq simp_thms)
  qed
qed

lemma round_half_even_ge: "m div 2 ^ s \<le> round_half_even m s"
  by (simp add: round_half_even_def Let_def)

lemma to_53_bits_nonneg: "0 \<le> m \<Longrightarrow> 0 \<le> to_53_bits m"
proof -
  assume "0 \<le> m"
  then have "0 \<le> m div 2 ^ excess_bits m" by (simp add: pos_imp_zdiv_nonneg_iff)
  with round_half_even_ge [of m "excess_bits m"] have "0 \<le> round_half_even m (excess_bits m)"
    by linarith
  then show ?thesis by (simp add: to_53_bits_def Let_def)
qed

lemma to_53_bits_huge:
  assumes "2 ^ 1024 \<le> m"
  shows "2 ^ 1024 \<le> to_53_bits m"
proof -
  define e where "e = excess_bits m"
  have m0: "0 \<le> m"
  proof -
    have "(0::int) \<le> 2 ^ 1024" by simp
    also note assms
    finally show ?thesis .
  qed
  from excess_bits_bounds [OF m0] have b: "m < 2 ^ (53 + e)" "0 < e \<longrightarrow> 2 ^ (52 + e) \<le> m"
    by (simp_all add: e_def)
  from assms b(1) have "(2::int) ^ 1024 < 2 ^ (53 + e)" by (rule le_less_trans)
  then have e: "1024 < 53 + e" by (simp only: power_strict_increasing_iff) 
  then have epos: "0 < e" by simp
  with b(2) have "2 ^ (52 + e) \<le> m" by simp
  then have "2 ^ (52 + e) div 2 ^ e \<le> m div 2 ^ e" by (rule zdiv_mono1) simp
  moreover have "(2::int) ^ (52 + e) div 2 ^ e = 2 ^ 52"
    by (simp add: power_add)
  ultimately have "2 ^ 52 \<le> round_half_even m e"
    using round_half_even_ge [of m e] by linarith
  then have r: "2 ^ 52 * 2 ^ e \<le> round_half_even m e * 2 ^ e"
    by (rule mult_right_mono) simp
  have t: "to_53_bits m = round_half_even m e * 2 ^ e"
    by (simp only: to_53_bits_def Let_def e_def)
  have "(2::int) ^ 1024 \<le> 2 ^ (52 + e)"
    using e by (intro power_increasing) simp_all
  also have "\<dots> = 2 ^ 52 * 2 ^ e"
    by (simp only: power_add)
  also note r
  finally show ?thesis
    by (simp only: t)
qed

lemma int_times_1_5_bounds:
  assumes "int_times_1_5 x = Inr p"
  shows "\<bar>x\<bar> < 2 ^ 1024" and "\<bar>p\<bar> < 2 ^ 1024"
proof -
  from assms have f: "to_53_bits \<bar>x\<bar> < 2 ^ 1024"
    by (simp add: int_times_1_5_def Let_def split: if_splits)
  with to_53_bits_huge [of "\<bar>x\<bar>"] show "\<bar>x\<bar> < 2 ^ 1024" by linarith
  from assms f have p: "p = sgn x * (to_53_bits (3 * to_53_bits \<bar>x\<bar>) div 2)"
    and q: "to_53_bits (3 * to_53_bits \<bar>x\<bar>) div 2 < 2 ^ 1024"
    by (simp_all add: int_times_1_5_def Let_def split: if_splits)
  have "0 \<le> to_53_bits \<bar>x\<bar>" by (rule to_53_bits_nonneg) simp
  then have "0 \<le> to_53_bits (3 * to_53_bits \<bar>x\<bar>)" by (intro to_53_bits_nonneg) simp
  then have "0 \<le> to_53_bits (3 * to_53_bits \<bar>x\<bar>) div 2" by simp
  with q p show "\<bar>p\<bar> < 2 ^ 1024"
    by (simp add: abs_mult abs_sgn_eq)
qed

lemma two_1024_digits: "(2::int) ^ 1024 + 256 < 10 ^ int_max_str_digits"
proof -
  have "(2::int) ^ 1024 + 256 \<le> 2 ^ 1024 + 2 ^ 1024"
    by (intro add_left_mono order_trans [OF _ power_increasing [of 8 1024]]) simp_all
  also have "\<dots> = 2 ^ 1025" by simp
  also have "\<dots> \<le> 10 ^ 1025" by (rule power_mono) simp_all
  also have "\<dots> < 10 ^ int_max_str_digits"
    unfolding int_max_str_digits_def by (rule power_strict_increasing) simp_all
  finally show ?thesis .
qed

lemma retrying_prints:
  assumes "retry_tokens cfg cap = Inr t" and "cap < OPENAI_RESPONSES_MAX_OUTPUT_TOKENS cfg"
  shows "log_responses_retrying t = Inr ()"
proof -
  define B :: int where "B = 2 ^ 1024"
  from assms(1) obtain p where p: "int_times_1_5 cap = Inr p"
    and t: "t = min (OPENAI_RESPONSES_MAX_OUTPUT_TOKENS cfg) (max p (cap + 256))"
    by (auto simp: retry_tokens_def split: sum.splits)
  from int_times_1_5_bounds [OF p] have "\<bar>cap\<bar> < B" "\<bar>p\<bar> < B"
    by (simp_all only: B_def)
  with assms(2) have "\<bar>t\<bar> < B + 256"
    unfolding t by linarith
  moreover from two_1024_digits have "B + 256 < 10 ^ int_max_str_digits"
    by (simp only: B_def)
  ultimately have "\<bar>t\<bar> < 10 ^ int_max_str_digits" by (rule less_trans)
  then show ?thesis
    by (simp add: log_responses_retrying_def py_str_int_small)
qed

lemma responses_requests:
  assumes client: "get_openai_client s = Inr create"
    and api: "should_use_responses_api U model"
    and first: "create [] (ResponsesCreate model (format_messages_for_responses msgs)
                  (min (max max_tokens (OPENAI_RESPONSES_MIN_OUTPUT_TOKENS cfg))
                       (OPENAI_RESPONSES_MAX_OUTPUT_TOKENS cfg))) = Inr resp"
    and log: "log_responses_done U fuel h (resp_obj resp)
                (min (max max_tokens (OPENAI_RESPONSES_MIN_OUTPUT_TOKENS cfg))
                     (OPENAI_RESPONSES_MAX_OUTPUT_TOKENS cfg)) = Inr ()"
    and reason: "get_incomplete_reason U fuel h (resp_obj resp) = Inr reason"
  shows "snd (call_openai_chat U cfg fuel h s msgs model temperature max_tokens) =
     (let cap = min (max max_tokens (OPENAI_RESPONSES_MIN_OUTPUT_TOKENS cfg))
                    (OPENAI_RESPONSES_MAX_OUTPUT_TOKENS cfg);
          first_request = ResponsesCreate model (format_messages_for_responses msgs) cap
      in if reason = Some (ascii ''max_output_tokens'') \<and> cap < OPENAI_RESPONSES_MAX_OUTPUT_TOKENS cfg
         then (case int_times_1_5 cap of
                 Inl overflow \<Rightarrow> [first_request]
               | Inr product \<Rightarrow>
                   [first_request,
                    ResponsesCreate model (format_messages_for_responses msgs)
                      (min (OPENAI_RESPONSES_MAX_OUTPUT_TOKENS cfg) (max product (cap + 256)))])
         else [first_request])"
proof -
  define cap where "cap = min (max max_tokens (OPENAI_RESPONSES_MIN_OUTPUT_TOKENS cfg))
                    (OPENAI_RESPONSES_MAX_OUTPUT_TOKENS cfg)"
  note facts = client api first [folded cap_def] log [folded cap_def] reason
  show ?thesis
    unfolding Let_def cap_def [symmetric]
  proof (cases "reason = Some (ascii ''max_output_tokens'') \<and> cap < OPENAI_RESPONSES_MAX_OUTPUT_TOKENS cfg")
    case False
    with facts show "snd (call_openai_chat U cfg fuel h s msgs model temperature max_tokens) =
      (if reason = Some (ascii ''max_output_tokens'') \<and> cap < OPENAI_RESPONSES_MAX_OUTPUT_TOKENS cfg
         then (case int_times_1_5 cap of
                 Inl overflow \<Rightarrow> [ResponsesCreate model (format_messages_for_responses msgs) cap]
               | Inr product \<Rightarrow>
                   [ResponsesCreate model (format_messages_for_responses msgs) cap,
                    ResponsesCreate model (format_messages_for_responses msgs)
                      (min (OPENAI_RESPONSES_MAX_OUTPUT_TOKENS cfg) (max product (cap + 256)))])
         else [ResponsesCreate model (format_messages_for_responses msgs) cap])"
      by (auto simp add: call_openai_chat_def responses_branch_def Let_def cap_def [symmetric]
          split: prod.splits)
  next
    case True
    show "snd (call_openai_chat U cfg fuel h s msgs model temperature max_tokens) =
      (if reason = Some (ascii ''max_output_tokens'') \<and> cap < OPENAI_RESPONSES_MAX_OUTPUT_TOKENS cfg
         then (case int_times_1_5 cap of
                 Inl overflow \<Rightarrow> [ResponsesCreate model (format_messages_for_responses msgs) cap]
               | Inr product \<Rightarrow>
                   [ResponsesCreate model (format_messages_for_responses msgs) cap,
                    ResponsesCreate model (format_messages_for_responses msgs)
                      (min (OPENAI_RESPONSES_MAX_OUTPUT_TOKENS cfg) (max product (cap + 256)))])
         else [ResponsesCreate model (format_messages_for_responses msgs) cap])"
    proof (cases "int_times_1_5 cap")
      case (Inl e)
      with True facts show ?thesis
        by (simp add: call_openai_chat_def responses_branch_def Let_def cap_def [symmetric]
            retry_tokens_def split: prod.splits)
    next
      case (Inr p)
      then have rt: "retry_tokens cfg cap
                       = Inr (min (OPENAI_RESPONSES_MAX_OUTPUT_TOKENS cfg) (max p (cap + 256)))"
        by (simp add: retry_tokens_def)
      from retrying_prints [OF rt] True
      have lg: "log_responses_retrying (min (OPENAI_RESPONSES_MAX_OUTPUT_TOKENS cfg) (max p (cap + 256)))
                  = Inr ()" by simp
      from True facts Inr rt lg show ?thesis
        by (simp add: call_openai_chat_def responses_branch_def Let_def cap_def [symmetric]
            split: prod.splits sum.splits)
    qed
  qed
qed

lemma responses_at_most_one_retry:
  assumes client: "get_openai_client s = Inr create"
    and api: "should_use_responses_api U model"
  shows "snd (call_openai_chat U cfg fuel h s msgs model temperature max_tokens)
           = [ResponsesCreate model (format_messages_for_responses msgs)
                (min (max max_tokens (OPENAI_RESPONSES_MIN_OUTPUT_TOKENS cfg))
                     (OPENAI_RESPONSES_MAX_OUTPUT_TOKENS cfg))]
         \<or> (\<exists>new_cap. snd (call_openai_chat U cfg fuel h s msgs model temperature max_tokens)
           = [ResponsesCreate model (format_messages_for_responses msgs)
                (min (max max_tokens (OPENAI_RESPONSES_MIN_OUTPUT_TOKENS cfg))
                     (OPENAI_RESPONSES_MAX_OUTPUT_TOKENS cfg)),
              ResponsesCreate model (format_messages_for_responses msgs) new_cap])"
proof -
  define cap where "cap = min (max max_tokens (OPENAI_RESPONSES_MIN_OUTPUT_TOKENS cfg))
                    (OPENAI_RESPONSES_MAX_OUTPUT_TOKENS cfg)"
  define input where "input = format_messages_for_responses msgs"
  have "snd (responses_branch U cfg fuel h create msgs model max_tokens)
           = [ResponsesCreate model input cap]
         \<or> (\<exists>new_cap. snd (responses_branch U cfg fuel h create msgs model max_tokens)
           = [ResponsesCreate model input cap, ResponsesCreate model input new_cap])"
    unfolding responses_branch_def Let_def cap_def [symmetric] input_def [symmetric]
    by (simp split: sum.splits)
  moreover have "snd (call_openai_chat U cfg fuel h s msgs model temperature max_tokens)
                   = snd (responses_branch U cfg fuel h create msgs model max_tokens)"
    using client api by (simp add: call_openai_chat_def case_prod_beta)
  ultimately show ?thesis
    by (simp only: cap_def input_def)
qed


lemma py_repr_None:
  assumes "0 < fuel"
  shows "py_repr U fuel h seen PNone = Inr (ascii ''None'')"
  using assms by (cases fuel) simp_all

lemma coerce_None:
  assumes "0 < fuel"
  shows "coerce_text_value U fuel h PNone = Inr None"
  using assms by (cases fuel) (simp_all add: deref_def)

lemma gpt_5_mini_structured: "should_use_responses_api plain_ucd (ascii ''gpt-5-mini'')"
  by (simp add: should_use_responses_api_def py_lower_def RESPONSES_ONLY_PREFIXES_def ascii_def)

lemma gpt_4o_legacy: "\<not> should_use_responses_api plain_ucd (ascii ''gpt-4o'')"
  by (simp add: should_use_responses_api_def py_lower_def RESPONSES_ONLY_PREFIXES_def ascii_def)

lemma py_str_int_cap:
  assumes "\<bar>i\<bar> \<le> 2 ^ 1024"
  shows "py_str_int i = Inr (str_int i)"
proof -
  have "(2::int) ^ 1024 < 2 ^ 1024 + 256" by simp
  with assms two_1024_digits have "\<bar>i\<bar> < 10 ^ int_max_str_digits" by linarith
  then show ?thesis by (rule py_str_int_small)
qed

lemma default_cap_prints:
  "py_str_int (min (max max_tokens (OPENAI_RESPONSES_MIN_OUTPUT_TOKENS default_config))
                   (OPENAI_RESPONSES_MAX_OUTPUT_TOKENS default_config))
     = Inr (str_int (min (max max_tokens (OPENAI_RESPONSES_MIN_OUTPUT_TOKENS default_config))
                         (OPENAI_RESPONSES_MAX_OUTPUT_TOKENS default_config)))"
proof (rule py_str_int_cap)
  define c where "c = min (max max_tokens (OPENAI_RESPONSES_MIN_OUTPUT_TOKENS default_config))
                   (OPENAI_RESPONSES_MAX_OUTPUT_TOKENS default_config)"
  have "\<bar>c\<bar> \<le> 2 ^ 12" by (simp add: c_def default_config_def)
  also have "(2::int) ^ 12 \<le> 2 ^ 1024" by (rule power_increasing) simp_all
  finally show "\<bar>min (max max_tokens (OPENAI_RESPONSES_MIN_OUTPUT_TOKENS default_config))
                   (OPENAI_RESPONSES_MAX_OUTPUT_TOKENS default_config)\<bar> \<le> 2 ^ 1024"
    by (simp only: c_def)
qed

lemma truncating_log:
  "log_responses_done plain_ucd 1000 empty_heap
     (PDict [(ascii ''incomplete_details'',
              PDict [(ascii ''reason'', PStr (ascii ''max_output_tokens''))])])
     (min (max max_tokens (OPENAI_RESPONSES_MIN_OUTPUT_TOKENS default_config))
          (OPENAI_RESPONSES_MAX_OUTPUT_TOKENS default_config)) = Inr ()"
  unfolding log_responses_done_def default_cap_prints
  by (simp add: responses_output_count_def get_from_obj_def deref_def
      py_or_def py_truthy_def py_len_def py_str_def py_repr_None ascii_def)

lemma truncating_reason:
  "get_incomplete_reason plain_ucd 1000 empty_heap
     (PDict [(ascii ''incomplete_details'',
              PDict [(ascii ''reason'', PStr (ascii ''max_output_tokens''))])])
   = Inr (Some (ascii ''max_output_tokens''))"
  by (simp add: get_incomplete_reason_def get_from_obj_def deref_def py_truthy_def py_str_def
      ascii_def)

text \<open>
  C6, as the code has it. In the structured protocol the requests sent are the first
  one and at most one retry, whatever the provider answers. Once the first response has
  come, the debug line about it has printed (it takes \<open>len\<close> of the output and formats
  the status and the cap) and the incompletion reason has been read, a retry is sent
  exactly when the reason is \<open>max_output_tokens\<close> and the cap is below the ceiling, with
  the cap \<open>min(ceiling, max(int(cap * 1.5), cap + 256))\<close>, unless the product overflows
  a float and ends the call. Nothing is sent after the retry, whatever comes back. For
  a cap from 0 to below \<open>2 ^ 51\<close> the float product is exact and \<open>int(cap * 1.5)\<close> is the
  product rounded down.
\<close>

theorem responses_retry_once:
  assumes "get_openai_client s = Inr create"
    and "should_use_responses_api U model"
  shows "(let cap = min (max max_tokens (OPENAI_RESPONSES_MIN_OUTPUT_TOKENS cfg))
                    (OPENAI_RESPONSES_MAX_OUTPUT_TOKENS cfg);
          first_request = ResponsesCreate model (format_messages_for_responses msgs) cap;
          sent = snd (call_openai_chat U cfg fuel h s msgs model temperature max_tokens)
      in (sent = [first_request]
          \<or> (\<exists>new_cap. sent = [first_request,
                ResponsesCreate model (format_messages_for_responses msgs) new_cap]))
        \<and> (create [] first_request = Inr resp
           \<and> log_responses_done U fuel h (resp_obj resp) cap = Inr ()
           \<and> get_incomplete_reason U fuel h (resp_obj resp) = Inr reason
           \<longrightarrow> sent =
               (if reason = Some (ascii ''max_output_tokens'')
                   \<and> cap < OPENAI_RESPONSES_MAX_OUTPUT_TOKENS cfg
                then (case int_times_1_5 cap of
                        Inl overflow \<Rightarrow> [first_request]
                      | Inr product \<Rightarrow>
                          [first_request,
                           ResponsesCreate model (format_messages_for_responses msgs)
                             (min (OPENAI_RESPONSES_MAX_OUTPUT_TOKENS cfg)
                                  (max product (cap + 256)))])
                else [first_request]))
        \<and> (0 \<le> cap \<and> cap < 2 ^ 51
           \<longrightarrow> int_times_1_5 cap = Inr \<lfloor>(of_int cap :: rat) * (3 / 2)\<rfloor>))"
  unfolding Let_def
proof (intro conjI impI)
  show "snd (call_openai_chat U cfg fuel h s msgs model temperature max_tokens)
           = [ResponsesCreate model (format_messages_for_responses msgs)
                (min (max max_tokens (OPENAI_RESPONSES_MIN_OUTPUT_TOKENS cfg))
                     (OPENAI_RESPONSES_MAX_OUTPUT_TOKENS cfg))]
         \<or> (\<exists>new_cap. snd (call_openai_chat U cfg fuel h s msgs model temperature max_tokens)
           = [ResponsesCreate model (format_messages_for_responses msgs)
                (min (max max_tokens (OPENAI_RESPONSES_MIN_OUTPUT_TOKENS cfg))
                     (OPENAI_RESPONSES_MAX_OUTPUT_TOKENS cfg)),
              ResponsesCreate model (format_messages_for_responses msgs) new_cap])"
    using assms by (rule responses_at_most_one_retry)
next
  assume a: "create [] (ResponsesCreate model (format_messages_for_responses msgs)
                  (min (max max_tokens (OPENAI_RESPONSES_MIN_OUTPUT_TOKENS cfg))
                       (OPENAI_RESPONSES_MAX_OUTPUT_TOKENS cfg))) = Inr resp
           \<and> log_responses_done U fuel h (resp_obj resp)
                (min (max max_tokens (OPENAI_RESPONSES_MIN_OUTPUT_TOKENS cfg))
                     (OPENAI_RESPONSES_MAX_OUTPUT_TOKENS cfg)) = Inr ()
           \<and> get_incomplete_reason U fuel h (resp_obj resp) = Inr reason"
  from responses_requests [OF assms, of msgs max_tokens cfg resp fuel h reason temperature] a
  show "snd (call_openai_chat U cfg fuel h s msgs model temperature max_tokens) =
               (if reason = Some (ascii ''max_output_tokens'')
                   \<and> min (max max_tokens (OPENAI_RESPONSES_MIN_OUTPUT_TOKENS cfg))
                       (OPENAI_RESPONSES_MAX_OUTPUT_TOKENS cfg) < OPENAI_RESPONSES_MAX_OUTPUT_TOKENS cfg
                then (case int_times_1_5 (min (max max_tokens (OPENAI_RESPONSES_MIN_OUTPUT_TOKENS cfg))
                       (OPENAI_RESPONSES_MAX_OUTPUT_TOKENS cfg)) of
                        Inl overflow \<Rightarrow> [ResponsesCreate model (format_messages_for_responses msgs)
                           (min (max max_tokens (OPENAI_RESPONSES_MIN_OUTPUT_TOKENS cfg))
                             (OPENAI_RESPONSES_MAX_OUTPUT_TOKENS cfg))]
                      | Inr product \<Rightarrow>
                          [ResponsesCreate model (format_messages_for_responses msgs)
                             (min (max max_tokens (OPENAI_RESPONSES_MIN_OUTPUT_TOKENS cfg))
                               (OPENAI_RESPONSES_MAX_OUTPUT_TOKENS cfg)),
                           ResponsesCreate model (format_messages_for_responses msgs)
                             (min (OPENAI_RESPONSES_MAX_OUTPUT_TOKENS cfg)
                                  (max product (min (max max_tokens (OPENAI_RESPONSES_MIN_OUTPUT_TOKENS cfg))
                                     (OPENAI_RESPONSES_MAX_OUTPUT_TOKENS cfg) + 256)))])
                else [ResponsesCreate model (format_messages_for_responses msgs)
                        (min (max max_tokens (OPENAI_RESPONSES_MIN_OUTPUT_TOKENS cfg))
                          (OPENAI_RESPONSES_MAX_OUTPUT_TOKENS cfg))])"
    unfolding Let_def by blast
next
  assume "0 \<le> min (max max_tokens (OPENAI_RESPONSES_MIN_OUTPUT_TOKENS cfg))
                 (OPENAI_RESPONSES_MAX_OUTPUT_TOKENS cfg)
          \<and> min (max max_tokens (OPENAI_RESPONSES_MIN_OUTPUT_TOKENS cfg))
                 (OPENAI_RESPONSES_MAX_OUTPUT_TOKENS cfg) < 2 ^ 51"
  then show "int_times_1_5 (min (max max_tokens (OPENAI_RESPONSES_MIN_OUTPUT_TOKENS cfg))
                 (OPENAI_RESPONSES_MAX_OUTPUT_TOKENS cfg))
               = Inr \<lfloor>(of_int (min (max max_tokens (OPENAI_RESPONSES_MIN_OUTPUT_TOKENS cfg))
                 (OPENAI_RESPONSES_MAX_OUTPUT_TOKENS cfg)) :: rat) * (3 / 2)\<rfloor>"
    by (intro int_times_1_5_floor) simp_all
qed

theorem responses_retry_once_witness:
  "truncating_client [] (ResponsesCreate (ascii ''gpt-5-mini'') [] 1024)
     = Inr \<lparr>resp_obj = PDict [(ascii ''incomplete_details'',
                               PDict [(ascii ''reason'', PStr (ascii ''max_output_tokens''))])],
          resp_model_dump = None\<rparr>
   \<and> log_responses_done plain_ucd 1000 empty_heap
       (PDict [(ascii ''incomplete_details'',
                PDict [(ascii ''reason'', PStr (ascii ''max_output_tokens''))])]) 1024 = Inr ()
   \<and> get_incomplete_reason plain_ucd 1000 empty_heap
       (PDict [(ascii ''incomplete_details'',
                PDict [(ascii ''reason'', PStr (ascii ''max_output_tokens''))])])
     = Inr (Some (ascii ''max_output_tokens''))
   \<and> int_times_1_5 1024 = Inr 1536
   \<and> snd (call_openai_chat plain_ucd default_config 1000 empty_heap (Client truncating_client) []
          (ascii ''gpt-5-mini'') (1 / 5) 512)
     = [ResponsesCreate (ascii ''gpt-5-mini'') [] 1024, ResponsesCreate (ascii ''gpt-5-mini'') [] 1536]"
proof -
  let ?obj = "PDict [(ascii ''incomplete_details'',
                      PDict [(ascii ''reason'', PStr (ascii ''max_output_tokens''))])]"
  have c: "get_openai_client (Client truncating_client) = Inr truncating_client"
    by (simp add: get_openai_client_def)
  have cap: "min (max 512 (OPENAI_RESPONSES_MIN_OUTPUT_TOKENS default_config))
                 (OPENAI_RESPONSES_MAX_OUTPUT_TOKENS default_config) = 1024"
    by (simp add: default_config_def)
  have f: "truncating_client [] (ResponsesCreate (ascii ''gpt-5-mini'') [] 1024)
             = Inr \<lparr>resp_obj = ?obj, resp_model_dump = None\<rparr>"
    by (simp add: truncating_client_def)
  have l: "log_responses_done plain_ucd 1000 empty_heap ?obj 1024 = Inr ()"
    using truncating_log [of 512] by (simp only: cap)
  have m: "format_messages_for_responses [] = []"
    by (simp add: format_messages_for_responses_def)
  have fl: "\<lfloor>(of_int 1024 :: rat) * (3 / 2)\<rfloor> = 1536" by simp
  have ce: "(1024::int) < OPENAI_RESPONSES_MAX_OUTPUT_TOKENS default_config"
    "min (OPENAI_RESPONSES_MAX_OUTPUT_TOKENS default_config) 1536 = (1536::int)"
    by (simp_all add: default_config_def)
  note t = responses_retry_once [OF c gpt_5_mini_structured,
      where msgs = "[]" and max_tokens = 512 and cfg = default_config and fuel = 1000
        and h = empty_heap and temperature = "1 / 5"
        and resp = "\<lparr>resp_obj = ?obj, resp_model_dump = None\<rparr>"
        and reason = "Some (ascii ''max_output_tokens'')", unfolded Let_def cap m]
  from t have e: "int_times_1_5 1024 = Inr 1536"
    by (simp only: fl) simp
  from t f l truncating_reason
  have "snd (call_openai_chat plain_ucd default_config 1000 empty_heap (Client truncating_client) []
          (ascii ''gpt-5-mini'') (1 / 5) 512)
     = [ResponsesCreate (ascii ''gpt-5-mini'') [] 1024, ResponsesCreate (ascii ''gpt-5-mini'') [] 1536]"
    by (simp add: e ce)
  with f l truncating_reason e show ?thesis by blast
qed

text \<open>
  The sentence of the specification fails in three ways. With the odd cap 1025 the
  retry asks for 1537 tokens, where the formula gives 1537.5. A response that is cut at
  the token limit under a cap below the ceiling, but whose output is the number 5, gets
  no retry: the debug line takes \<open>len\<close> of the output, and the call ends with a 502 after
  one request. And from \<open>2 ^ 53\<close> on the float product is no longer the exact one:
  \<open>int((2 ^ 53 + 1) * 1.5)\<close> is 13510798882111488, one less than the product rounded down.
\<close>

theorem responses_retry_cap_counterexample:
  "snd (call_openai_chat plain_ucd default_config 1000 empty_heap (Client truncating_client) []
          (ascii ''gpt-5-mini'') (1 / 5) 1025)
     = [ResponsesCreate (ascii ''gpt-5-mini'') [] 1025, ResponsesCreate (ascii ''gpt-5-mini'') [] 1537]
   \<and> (of_int 1537 :: rat) \<noteq> min 4096 (max (of_int 1025 * (3 / 2)) (of_int 1025 + 256))
   \<and> get_incomplete_reason plain_ucd 1000 empty_heap
        (PDict [(ascii ''output'', PInt 5),
                (ascii ''incomplete_details'',
                 PDict [(ascii ''reason'', PStr (ascii ''max_output_tokens''))])])
     = Inr (Some (ascii ''max_output_tokens''))
   \<and> call_openai_chat plain_ucd default_config 1000 empty_heap (Client truncating_unsized_client) []
          (ascii ''gpt-5-mini'') (1 / 5) 512
     = (Inl (HTTPException 502
               (ascii ''OpenAI chat completion failed: object of type '' @ [39] @ ascii ''int''
                  @ [39] @ ascii '' has no len()'')),
        [ResponsesCreate (ascii ''gpt-5-mini'') [] 1024])
   \<and> int_times_1_5 9007199254740993 = Inr 13510798882111488
   \<and> \<lfloor>(of_int 9007199254740993 :: rat) * (3 / 2)\<rfloor> = 13510798882111489"
proof -
  let ?obj = "PDict [(ascii ''incomplete_details'',
                      PDict [(ascii ''reason'', PStr (ascii ''max_output_tokens''))])]"
  have c: "get_openai_client (Client truncating_client) = Inr truncating_client"
    by (simp add: get_openai_client_def)
  have cap: "min (max 1025 (OPENAI_RESPONSES_MIN_OUTPUT_TOKENS default_config))
                 (OPENAI_RESPONSES_MAX_OUTPUT_TOKENS default_config) = 1025"
    by (simp add: default_config_def)
  have f: "truncating_client [] (ResponsesCreate (ascii ''gpt-5-mini'') [] 1025)
             = Inr \<lparr>resp_obj = ?obj, resp_model_dump = None\<rparr>"
    by (simp add: truncating_client_def)
  have l: "log_responses_done plain_ucd 1000 empty_heap ?obj 1025 = Inr ()"
    using truncating_log [of 1025] by (simp only: cap)
  have m: "format_messages_for_responses [] = []"
    by (simp add: format_messages_for_responses_def)
  have e: "int_times_1_5 1025 = Inr 1537"
    using int_times_1_5_exact [of 1025] by simp
  have ce: "(1025::int) < OPENAI_RESPONSES_MAX_OUTPUT_TOKENS default_config"
    "min (OPENAI_RESPONSES_MAX_OUTPUT_TOKENS default_config) 1537 = (1537::int)"
    by (simp_all add: default_config_def)
  from responses_requests [OF c gpt_5_mini_structured,
      where msgs = "[]" and max_tokens = 1025 and cfg = default_config and fuel = 1000
        and h = empty_heap and temperature = "1 / 5"
        and resp = "\<lparr>resp_obj = ?obj, resp_model_dump = None\<rparr>"
        and reason = "Some (ascii ''max_output_tokens'')", unfolded Let_def cap m]
    f l truncating_reason
  have 1: "snd (call_openai_chat plain_ucd default_config 1000 empty_heap (Client truncating_client) []
          (ascii ''gpt-5-mini'') (1 / 5) 1025)
     = [ResponsesCreate (ascii ''gpt-5-mini'') [] 1025, ResponsesCreate (ascii ''gpt-5-mini'') [] 1537]"
    by (simp add: e ce)
  have 2: "(of_int 1537 :: rat) \<noteq> min 4096 (max (of_int 1025 * (3 / 2)) (of_int 1025 + 256))"
    by simp
  have 3: "get_incomplete_reason plain_ucd 1000 empty_heap
        (PDict [(ascii ''output'', PInt 5),
                (ascii ''incomplete_details'',
                 PDict [(ascii ''reason'', PStr (ascii ''max_output_tokens''))])])
     = Inr (Some (ascii ''max_output_tokens''))"
    by (simp add: get_incomplete_reason_def get_from_obj_def deref_def py_truthy_def py_str_def
        ascii_def)
  have n: "responses_output_count empty_heap
        (PDict [(ascii ''output'', PInt 5),
                (ascii ''incomplete_details'',
                 PDict [(ascii ''reason'', PStr (ascii ''max_output_tokens''))])])
     = Inl (Raised TypeError (no_len_text (PInt 5)))"
    by (simp add: responses_output_count_def get_from_obj_def deref_def py_or_def py_truthy_def
        py_len_def ascii_def)
  have 4: "call_openai_chat plain_ucd default_config 1000 empty_heap (Client truncating_unsized_client) []
          (ascii ''gpt-5-mini'') (1 / 5) 512
     = (Inl (HTTPException 502
               (ascii ''OpenAI chat completion failed: object of type '' @ [39] @ ascii ''int''
                  @ [39] @ ascii '' has no len()'')),
        [ResponsesCreate (ascii ''gpt-5-mini'') [] 1024])"
    using gpt_5_mini_structured
    by (simp add: call_openai_chat_def get_openai_client_def responses_branch_def Let_def
        truncating_unsized_client_def log_responses_done_def n m handle_openai_errors_def
        is_empty_openai_http_error_def default_config_def no_len_text_def type_name_def)
       (simp add: ascii_def)
  have 5: "int_times_1_5 9007199254740993 = Inr 13510798882111488"
    by (simp add: int_times_1_5_def to_53_bits_def round_half_even_def excess_bits.simps Let_def)
  have 6: "\<lfloor>(of_int 9007199254740993 :: rat) * (3 / 2)\<rfloor> = 13510798882111489"
  proof -
    have "(of_int 9007199254740993 :: rat) * (3 / 2) = (of_int 27021597764222979 :: rat) / of_int 2"
      by simp
    then have "\<lfloor>(of_int 9007199254740993 :: rat) * (3 / 2)\<rfloor>
                 = \<lfloor>(of_int 27021597764222979 :: rat) / of_int 2\<rfloor>"
      by (rule arg_cong)
    also have "\<dots> = 27021597764222979 div 2"
      by (simp only: floor_divide_of_int_eq)
    also have "\<dots> = 13510798882111489" by simp
    finally show ?thesis .
  qed
  from 1 2 3 4 5 6 show ?thesis by blast
qed

lemma is_empty_EMPTY: "is_empty_openai_http_error (HTTPException 502 EMPTY_RESPONSE_DETAIL)"
  by (simp add: is_empty_openai_http_error_def)

lemma responses_text_empty:
  assumes "extract_text_from_responses U fuel h resp = Inl (HTTPException 502 EMPTY_RESPONSE_DETAIL)"
  shows "responses_text U fuel h resp = Inr ASSISTANT_FALLBACK_MESSAGE"
  using assms is_empty_EMPTY
  by (simp add: responses_text_def fallback_assistant_response_def)

text \<open>
  When the calls to the provider return and the fields the service reads on the way
  (the debug lines, the incompletion reason, the new cap) raise nothing, a response
  without extractable text gives the fallback message in both protocols: in the
  structured one the response read last (the retry's, if one was made) makes
  \<open>extract_text_from_responses\<close> raise the empty-response error, in the legacy one the
  first choice yields \<open>None\<close>.
\<close>

lemma structured_fallback:
  assumes client: "get_openai_client s = Inr create"
    and api: "should_use_responses_api U model"
    and first: "create [] (ResponsesCreate model (format_messages_for_responses msgs)
                  (min (max max_tokens (OPENAI_RESPONSES_MIN_OUTPUT_TOKENS cfg))
                       (OPENAI_RESPONSES_MAX_OUTPUT_TOKENS cfg))) = Inr resp"
    and log: "log_responses_done U fuel h (resp_obj resp)
                (min (max max_tokens (OPENAI_RESPONSES_MIN_OUTPUT_TOKENS cfg))
                     (OPENAI_RESPONSES_MAX_OUTPUT_TOKENS cfg)) = Inr ()"
    and reason: "get_incomplete_reason U fuel h (resp_obj resp) = Inr reason"
    and retry: "reason = Some (ascii ''max_output_tokens'') \<and>
                min (max max_tokens (OPENAI_RESPONSES_MIN_OUTPUT_TOKENS cfg))
                    (OPENAI_RESPONSES_MAX_OUTPUT_TOKENS cfg) < OPENAI_RESPONSES_MAX_OUTPUT_TOKENS cfg
                \<longrightarrow> retry_tokens cfg (min (max max_tokens (OPENAI_RESPONSES_MIN_OUTPUT_TOKENS cfg))
                                   (OPENAI_RESPONSES_MAX_OUTPUT_TOKENS cfg)) = Inr new_cap
                    \<and> create [ResponsesCreate model (format_messages_for_responses msgs)
                              (min (max max_tokens (OPENAI_RESPONSES_MIN_OUTPUT_TOKENS cfg))
                                   (OPENAI_RESPONSES_MAX_OUTPUT_TOKENS cfg))]
                      (ResponsesCreate model (format_messages_for_responses msgs) new_cap) = Inr retry_resp
                    \<and> log_responses_retry_done U fuel h (resp_obj retry_resp) = Inr ()"
    and empty: "extract_text_from_responses U fuel h
                  (if reason = Some (ascii ''max_output_tokens'') \<and>
                      min (max max_tokens (OPENAI_RESPONSES_MIN_OUTPUT_TOKENS cfg))
                          (OPENAI_RESPONSES_MAX_OUTPUT_TOKENS cfg) < OPENAI_RESPONSES_MAX_OUTPUT_TOKENS cfg
                   then retry_resp else resp)
                = Inl (HTTPException 502 EMPTY_RESPONSE_DETAIL)"
  shows "fst (call_openai_chat U cfg fuel h s msgs model temperature max_tokens)
           = Inr ASSISTANT_FALLBACK_MESSAGE"
proof (cases "reason = Some (ascii ''max_output_tokens'') \<and>
                min (max max_tokens (OPENAI_RESPONSES_MIN_OUTPUT_TOKENS cfg))
                    (OPENAI_RESPONSES_MAX_OUTPUT_TOKENS cfg) < OPENAI_RESPONSES_MAX_OUTPUT_TOKENS cfg")
  case True
  with empty have "responses_text U fuel h retry_resp = Inr ASSISTANT_FALLBACK_MESSAGE"
    by (intro responses_text_empty) simp
  moreover have "log_responses_retrying new_cap = Inr ()"
  proof (rule retrying_prints)
    from True retry
    show "retry_tokens cfg (min (max max_tokens (OPENAI_RESPONSES_MIN_OUTPUT_TOKENS cfg))
                                (OPENAI_RESPONSES_MAX_OUTPUT_TOKENS cfg)) = Inr new_cap"
      by blast
    from True
    show "min (max max_tokens (OPENAI_RESPONSES_MIN_OUTPUT_TOKENS cfg))
              (OPENAI_RESPONSES_MAX_OUTPUT_TOKENS cfg) < OPENAI_RESPONSES_MAX_OUTPUT_TOKENS cfg"
      by blast
  qed
  ultimately show ?thesis
    using True retry client api first log reason
    by (simp add: call_openai_chat_def responses_branch_def Let_def handle_openai_errors_def)
next
  case False
  with empty have "responses_text U fuel h resp = Inr ASSISTANT_FALLBACK_MESSAGE"
    by (intro responses_text_empty) simp
  with False client api first log reason show ?thesis
    by (auto simp add: call_openai_chat_def responses_branch_def Let_def handle_openai_errors_def)
qed

lemma legacy_fallback:
  assumes client: "get_openai_client s = Inr create"
    and api: "\<not> should_use_responses_api U model"
    and first: "create [] (ChatCompletionsCreate model msgs temperature max_tokens) = Inr resp"
    and choices: "py_getattr h (resp_obj resp) (ascii ''choices'') = Inr choices"
    and log: "log_chat_completions_done U fuel h choices = Inr ()"
    and choice: "(if py_truthy h choices then py_index0 h choices else Inr PNone) = Inr choice"
    and empty: "extract_text_from_chat_choice U fuel h choice = Inr None"
  shows "fst (call_openai_chat U cfg fuel h s msgs model temperature max_tokens)
           = Inr ASSISTANT_FALLBACK_MESSAGE"
  using assms
  by (simp add: call_openai_chat_def chat_completions_branch_def Let_def handle_openai_errors_def
      fallback_assistant_response_def)

lemma silent_extract:
  "extract_text_from_responses plain_ucd 1000 empty_heap
     \<lparr>resp_obj = PDict [(ascii ''output'', PList [])], resp_model_dump = None\<rparr>
   = Inl (HTTPException 502 EMPTY_RESPONSE_DETAIL)"
  by (simp add: extract_text_from_responses_def as_list_def get_from_obj_def deref_def
      py_or_def py_truthy_def coerce_None ascii_def)

lemma silent_log:
  "log_responses_done plain_ucd 1000 empty_heap (PDict [(ascii ''output'', PList [])])
     (min (max max_tokens (OPENAI_RESPONSES_MIN_OUTPUT_TOKENS default_config))
          (OPENAI_RESPONSES_MAX_OUTPUT_TOKENS default_config)) = Inr ()"
  unfolding log_responses_done_def default_cap_prints
  by (simp add: responses_output_count_def get_from_obj_def deref_def
      py_or_def py_truthy_def py_len_def py_str_def py_repr_None ascii_def)

lemma silent_reason:
  "get_incomplete_reason plain_ucd 1000 empty_heap (PDict [(ascii ''output'', PList [])]) = Inr None"
  by (simp add: get_incomplete_reason_def get_from_obj_def deref_def py_truthy_def ascii_def)

lemma silent_client_fallback:
  "fst (call_openai_chat plain_ucd default_config 1000 empty_heap (Client silent_client) []
          (ascii ''gpt-5-mini'') (1 / 5) 512) = Inr ASSISTANT_FALLBACK_MESSAGE"
proof -
  have c1: "get_openai_client (Client silent_client) = Inr silent_client"
    by (simp add: get_openai_client_def)
  let ?r1 = "\<lparr>resp_obj = PDict [(ascii ''output'', PList [])], resp_model_dump = None\<rparr>"
  have f1: "silent_client [] (ResponsesCreate (ascii ''gpt-5-mini'') (format_messages_for_responses [])
                  (min (max 512 (OPENAI_RESPONSES_MIN_OUTPUT_TOKENS default_config))
                       (OPENAI_RESPONSES_MAX_OUTPUT_TOKENS default_config))) = Inr ?r1"
    by (simp add: silent_client_def)
  show ?thesis
    using structured_fallback [OF c1 gpt_5_mini_structured f1, where fuel = 1000 and h = empty_heap
        and reason = None and retry_resp = ?r1 and temperature = "1 / 5"]
      silent_log [of 512] silent_reason silent_extract
    by simp
qed

lemma choiceless_client_fallback:
  "fst (call_openai_chat plain_ucd default_config 1000 empty_heap (Client choiceless_client) []
          (ascii ''gpt-4o'') (1 / 5) 512) = Inr ASSISTANT_FALLBACK_MESSAGE"
proof -
  have c2: "get_openai_client (Client choiceless_client) = Inr choiceless_client"
    by (simp add: get_openai_client_def)
  let ?r2 = "\<lparr>resp_obj = PObj [(ascii ''choices'', PList [])] (ascii ''ChatCompletion()'')
                         (ascii ''ChatCompletion()''), resp_model_dump = None\<rparr>"
  have f2: "choiceless_client [] (ChatCompletionsCreate (ascii ''gpt-4o'') [] (1 / 5) 512) = Inr ?r2"
    by (simp add: choiceless_client_def)
  have g2: "py_getattr empty_heap (resp_obj ?r2) (ascii ''choices'') = Inr (PList [])"
    by (simp add: py_getattr_def)
  have l2: "log_chat_completions_done plain_ucd 1000 empty_heap (PList []) = Inr ()"
    by (simp add: log_chat_completions_done_def py_or_def py_truthy_def py_len_def deref_def)
  have i2: "(if py_truthy empty_heap (PList []) then py_index0 empty_heap (PList []) else Inr PNone)
      = Inr PNone"
    by (simp add: py_truthy_def deref_def)
  have e2: "extract_text_from_chat_choice plain_ucd 1000 empty_heap PNone = Inr None"
    by (simp add: extract_text_from_chat_choice_def deref_def)
  show ?thesis
    by (rule legacy_fallback [OF c2 gpt_4o_legacy f2 g2 l2 i2 e2])
qed

text \<open>
  C7. The debug line after \<open>responses.create\<close> takes \<open>len\<close> of the output before the
  text is looked for. On the response \<open>{"output": 5}\<close> no text is extractable:
  \<open>extract_text_from_responses\<close>, which wraps an output that is not a list, raises the
  empty-response error, and the handler around it gives the fallback message. But
  \<open>call_openai_chat\<close> does not come that far: \<open>len(5)\<close> raises \<open>TypeError\<close>, which the
  outer handler turns into a 502, and the caller gets an error where the fallback
  message was due.
\<close>

theorem no_text_raises_on_unsized_output:
  "extract_text_from_responses plain_ucd 1000 empty_heap
     \<lparr>resp_obj = PDict [(ascii ''output'', PInt 5)], resp_model_dump = None\<rparr>
     = Inl (HTTPException 502 EMPTY_RESPONSE_DETAIL)
   \<and> responses_text plain_ucd 1000 empty_heap
       \<lparr>resp_obj = PDict [(ascii ''output'', PInt 5)], resp_model_dump = None\<rparr>
     = Inr ASSISTANT_FALLBACK_MESSAGE
   \<and> call_openai_chat plain_ucd default_config 1000 empty_heap (Client unsized_client) []
          (ascii ''gpt-5-mini'') (1 / 5) 512
     = (Inl (HTTPException 502
               (ascii ''OpenAI chat completion failed: object of type '' @ [39] @ ascii ''int''
                  @ [39] @ ascii '' has no len()'')),
        [ResponsesCreate (ascii ''gpt-5-mini'') [] 1024])"
proof -
  let ?r = "\<lparr>resp_obj = PDict [(ascii ''output'', PInt 5)], resp_model_dump = None\<rparr>"
  have 1: "extract_text_from_responses plain_ucd 1000 empty_heap ?r
             = Inl (HTTPException 502 EMPTY_RESPONSE_DETAIL)"
    by (simp add: extract_text_from_responses_def as_list_def get_from_obj_def deref_def
        py_or_def py_truthy_def py_in_strs_def hashable_def coerce_None ascii_def)
  have 2: "responses_text plain_ucd 1000 empty_heap ?r = Inr ASSISTANT_FALLBACK_MESSAGE"
    using 1 by (rule responses_text_empty)
  have n: "responses_output_count empty_heap (PDict [(ascii ''output'', PInt 5)])
     = Inl (Raised TypeError (no_len_text (PInt 5)))"
    by (simp add: responses_output_count_def get_from_obj_def deref_def py_or_def py_truthy_def
        py_len_def ascii_def)
  have m: "format_messages_for_responses [] = []"
    by (simp add: format_messages_for_responses_def)
  have 3: "call_openai_chat plain_ucd default_config 1000 empty_heap (Client unsized_client) []
          (ascii ''gpt-5-mini'') (1 / 5) 512
     = (Inl (HTTPException 502
               (ascii ''OpenAI chat completion failed: object of type '' @ [39] @ ascii ''int''
                  @ [39] @ ascii '' has no len()'')),
        [ResponsesCreate (ascii ''gpt-5-mini'') [] 1024])"
    using gpt_5_mini_structured
    by (simp add: call_openai_chat_def get_openai_client_def responses_branch_def Let_def
        unsized_client_def log_responses_done_def n m handle_openai_errors_def
        is_empty_openai_http_error_def default_config_def no_len_text_def type_name_def)
       (simp add: ascii_def)
  from 1 2 3 show ?thesis by blast
qed

subsection \<open>The reply orchestrator\<close>

lemma save_user_message_not_found:
  assumes "\<not> list_ex (\<lambda>c. chat_id c = room_id \<and> chat_user_id c = user_id) (chats db)"
  shows "save_user_message db now room_id user_id content
           = (db, Inl (HTTPException 404 (ascii ''Chat room not found or permission denied'')))"
proof -
  from assms have "filter (\<lambda>c. chat_id c = room_id \<and> chat_user_id c = user_id) (chats db) = []"
    by (simp add: list_ex_iff filter_empty_conv)
  then show ?thesis
    by (simp add: save_user_message_def ensure_room_ownership_def query_first_def)
qed

text \<open>
  C8. When the user owns no room with the given identifier (there is no such room, or it
  belongs to someone else), \<open>create_message_and_reply\<close> fails with the 404
  \<open>HTTPException\<close> and leaves the database as it was: no message is stored.
\<close>

theorem create_message_and_reply_not_found:
  assumes "\<not> list_ex (\<lambda>c. chat_id c = room_id \<and> chat_user_id c = user_id) (chats db)"
  shows "create_message_and_reply U cfg fuel h s news db now1 now2 room_id user_id content system_prompt
           = (db, Inl (HTTPException 404 (ascii ''Chat room not found or permission denied'')))"
  using save_user_message_not_found [OF assms]
  by (simp add: create_message_and_reply_def)

theorem create_message_and_reply_not_found_witness:
  "\<not> list_ex (\<lambda>c. chat_id c = 1 \<and> chat_user_id c = 2) (chats (example_db TrashEnum_out 3))
   \<and> create_message_and_reply plain_ucd default_config 1000 empty_heap (Client greeting_client) None
        (example_db TrashEnum_out 3) 10 11 1 2 (ascii ''hello'') None
      = (example_db TrashEnum_out 3,
         Inl (HTTPException 404 (ascii ''Chat room not found or permission denied'')))"
proof -
  have a: "\<not> list_ex (\<lambda>c. chat_id c = 1 \<and> chat_user_id c = 2) (chats (example_db TrashEnum_out 3))"
    by (simp add: example_db_def example_room_def)
  from create_message_and_reply_not_found [OF a] a show ?thesis by blast
qed

lemma create_message_and_reply_pair:
  assumes "snd (create_message_and_reply U cfg fuel h s news db now1 now2 room_id user_id content
                  system_prompt) = Inr result"
  shows "\<exists>user_msg assistant_msg. result = [RMessage user_msg, RMessage assistant_msg]"
  using assms
  by (auto simp: create_message_and_reply_def split: prod.splits sum.splits)

lemma create_message_with_openai_unpack:
  assumes "create_message_and_reply U cfg fuel h s news db now1 now2 room_id user_id content
                  system_prompt = (db1, Inr result)"
  shows "create_message_with_openai U cfg fuel h s news db now1 now2 room_id user_id content
                  system_prompt
         = (db1, Inl (Raised ValueError (ascii ''not enough values to unpack (expected 3, got 2)'')))"
proof -
  from assms have "snd (create_message_and_reply U cfg fuel h s news db now1 now2 room_id user_id content
                  system_prompt) = Inr result" by simp
  from create_message_and_reply_pair [OF this]
  obtain u a where "result = [RMessage u, RMessage a]" by blast
  with assms show ?thesis
    by (simp add: create_message_with_openai_def unpack_text_def ascii_def)
qed


lemma coerce_string_pos:
  assumes "0 < fuel"
  shows "coerce_text_value U fuel h (PStr s) = Inr (Some s)"
  using assms by (cases fuel) (simp_all add: deref_def)

lemma greeting_call:
  "fst (call_openai_chat plain_ucd default_config 1000 empty_heap (Client greeting_client) msgs
          (OPENAI_MODEL_DEFAULT default_config) temperature max_tokens) = Inr (ascii ''Hi'')"
proof -
  have api: "should_use_responses_api plain_ucd (OPENAI_MODEL_DEFAULT default_config)"
    by (simp add: should_use_responses_api_def py_lower_def RESPONSES_ONLY_PREFIXES_def ascii_def
        default_config_def)
  let ?obj = "PDict [(ascii ''output_text'', PStr (ascii ''Hi''))]"
  have log: "log_responses_done plain_ucd 1000 empty_heap ?obj
               (min (max max_tokens (OPENAI_RESPONSES_MIN_OUTPUT_TOKENS default_config))
                    (OPENAI_RESPONSES_MAX_OUTPUT_TOKENS default_config)) = Inr ()"
    unfolding log_responses_done_def default_cap_prints
    by (simp add: responses_output_count_def get_from_obj_def deref_def
        py_or_def py_truthy_def py_len_def py_str_def py_repr_None ascii_def)
  have reason: "get_incomplete_reason plain_ucd 1000 empty_heap ?obj = Inr None"
    by (simp add: get_incomplete_reason_def get_from_obj_def deref_def py_truthy_def ascii_def)
  have ex: "extract_text_from_responses plain_ucd 1000 empty_heap
              \<lparr>resp_obj = ?obj, resp_model_dump = None\<rparr> = Inr (ascii ''Hi'')"
    by (simp add: extract_text_from_responses_def as_list_def get_from_obj_def deref_def
        py_or_def py_truthy_def coerce_string_pos ascii_def)
  have rtext: "responses_text plain_ucd 1000 empty_heap \<lparr>resp_obj = ?obj, resp_model_dump = None\<rparr>
      = Inr (ascii ''Hi'')"
    by (simp add: responses_text_def ex) (simp add: ascii_def)
  show ?thesis
    using api log reason rtext
    by (simp add: call_openai_chat_def get_openai_client_def responses_branch_def Let_def
        greeting_client_def handle_openai_errors_def)
qed

text \<open>
  C1. A successful call of \<open>create_message_and_reply\<close> returns two components, the
  stored user message and the stored assistant message; the news documents are dropped
  inside \<open>generate_and_save_assistant_reply\<close>. The route, which unpacks three, fails
  with \<open>ValueError\<close> after both messages have been stored.
\<close>

theorem create_message_and_reply_returns_pair:
  "create_message_and_reply plain_ucd default_config 1000 empty_heap (Client greeting_client) None
     (example_db TrashEnum_out 0) 10 11 1 1 (ascii ''What is the outlook?'') None
   = (\<lparr>chats = [(example_room TrashEnum_out)\<lparr>chat_lastchat_at := Some 11\<rparr>],
       messages =
         [\<lparr>messages_id = 1, message_chat_id = 1, message_user_id = 1,
           message_role = RoleEnum_user, message_content = ascii ''What is the outlook?'',
           message_created_at = 10\<rparr>,
          \<lparr>messages_id = 2, message_chat_id = 1, message_user_id = 1,
           message_role = RoleEnum_assistant, message_content = ascii ''Hi'',
           message_created_at = 11\<rparr>]\<rparr>,
      Inr [RMessage \<lparr>messages_id = 1, message_chat_id = 1, message_user_id = 1,
                     message_role = RoleEnum_user, message_content = ascii ''What is the outlook?'',
                     message_created_at = 10\<rparr>,
           RMessage \<lparr>messages_id = 2, message_chat_id = 1, message_user_id = 1,
                     message_role = RoleEnum_assistant, message_content = ascii ''Hi'',
                     message_created_at = 11\<rparr>])
   \<and> snd (create_message_with_openai plain_ucd default_config 1000 empty_heap (Client greeting_client)
            None (example_db TrashEnum_out 0) 10 11 1 1 (ascii ''What is the outlook?'') None)
     = Inl (Raised ValueError (ascii ''not enough values to unpack (expected 3, got 2)''))"
proof -
  have save: "save_user_message (example_db TrashEnum_out 0) 10 1 1 (ascii ''What is the outlook?'')
     = (\<lparr>chats = [(example_room TrashEnum_out)\<lparr>chat_lastchat_at := Some 10\<rparr>],
         messages = [\<lparr>messages_id = 1, message_chat_id = 1, message_user_id = 1,
           message_role = RoleEnum_user, message_content = ascii ''What is the outlook?'',
           message_created_at = 10\<rparr>]\<rparr>,
        Inr \<lparr>messages_id = 1, message_chat_id = 1, message_user_id = 1,
           message_role = RoleEnum_user, message_content = ascii ''What is the outlook?'',
           message_created_at = 10\<rparr>)"
    by (simp add: save_user_message_def ensure_room_ownership_def query_first_def example_db_def
        example_room_def fresh_messages_id_def put_chat_def Let_def)
  have gen: "generate_and_save_assistant_reply plain_ucd default_config 1000 empty_heap
       (Client greeting_client) None
       \<lparr>chats = [(example_room TrashEnum_out)\<lparr>chat_lastchat_at := Some 10\<rparr>],
         messages = [\<lparr>messages_id = 1, message_chat_id = 1, message_user_id = 1,
           message_role = RoleEnum_user, message_content = ascii ''What is the outlook?'',
           message_created_at = 10\<rparr>]\<rparr> 11 1 1 None
     = (\<lparr>chats = [(example_room TrashEnum_out)\<lparr>chat_lastchat_at := Some 11\<rparr>],
       messages =
         [\<lparr>messages_id = 1, message_chat_id = 1, message_user_id = 1,
           message_role = RoleEnum_user, message_content = ascii ''What is the outlook?'',
           message_created_at = 10\<rparr>,
          \<lparr>messages_id = 2, message_chat_id = 1, message_user_id = 1,
           message_role = RoleEnum_assistant, message_content = ascii ''Hi'',
           message_created_at = 11\<rparr>]\<rparr>,
        Inr \<lparr>messages_id = 2, message_chat_id = 1, message_user_id = 1,
           message_role = RoleEnum_assistant, message_content = ascii ''Hi'',
           message_created_at = 11\<rparr>)"
    by (simp add: generate_and_save_assistant_reply_def ensure_room_ownership_def query_first_def
        example_room_def fresh_messages_id_def put_chat_def Let_def build_rag_news_summary_def
        greeting_call)
  have 1: "create_message_and_reply plain_ucd default_config 1000 empty_heap (Client greeting_client) None
     (example_db TrashEnum_out 0) 10 11 1 1 (ascii ''What is the outlook?'') None
   = (\<lparr>chats = [(example_room TrashEnum_out)\<lparr>chat_lastchat_at := Some 11\<rparr>],
       messages =
         [\<lparr>messages_id = 1, message_chat_id = 1, message_user_id = 1,
           message_role = RoleEnum_user, message_content = ascii ''What is the outlook?'',
           message_created_at = 10\<rparr>,
          \<lparr>messages_id = 2, message_chat_id = 1, message_user_id = 1,
           message_role = RoleEnum_assistant, message_content = ascii ''Hi'',
           message_created_at = 11\<rparr>]\<rparr>,
      Inr [RMessage \<lparr>messages_id = 1, message_chat_id = 1, message_user_id = 1,
                     message_role = RoleEnum_user, message_content = ascii ''What is the outlook?'',
                     message_created_at = 10\<rparr>,
           RMessage \<lparr>messages_id = 2, message_chat_id = 1, message_user_id = 1,
                     message_role = RoleEnum_assistant, message_content = ascii ''Hi'',
                     message_created_at = 11\<rparr>])"
    by (simp only: create_message_and_reply_def save gen prod.case sum.case)
  from create_message_with_openai_unpack [OF 1] 1 show ?thesis by simp
qed

end
